theory Spec2Isabelle
  imports Complex_Main
begin

section \<open>Story composer: canvas compositor and pointer controller\<close>

text \<open>
  The development covers three source units of the repository:
  \<^item> the compositor \<^verbatim>\<open>drawStoryCanvas\<close> with its helper \<^verbatim>\<open>calculateImageFit\<close>, which
    exists in two variants (the eight-parameter one of \<^verbatim>\<open>src/unnamed/part_002\<close> and the
    six-parameter one of \<^verbatim>\<open>src/client/src/lib/canvas-utils.ts\<close>);
  \<^item> the \<^verbatim>\<open>StoryCanvas\<close> component of \<^verbatim>\<open>src/unnamed/part_001\<close>: its hit tests, its pointer
    handlers and its debounced position notification;
  \<^item> \<^verbatim>\<open>calculateMonthlyPayment\<close> of the \<^verbatim>\<open>StoryGenerator\<close> page in the same file.

  A JavaScript \<^verbatim>\<open>number\<close> is modelled as a \<^typ>\<open>real\<close>: comparisons, \<^verbatim>\<open>Math.max\<close> and
  \<^verbatim>\<open>Math.min\<close> are exact on doubles, while sums, products and quotients are taken without
  rounding, and \<^verbatim>\<open>NaN\<close> is not an input. Where the source can divide by zero the model says
  so explicitly.
\<close>

subsection \<open>Data\<close>

text \<open>
  \<^verbatim>\<open>FloorPlanPosition\<close> and \<^verbatim>\<open>BackgroundPosition\<close> are two interfaces with the same four
  fields \<^verbatim>\<open>x, y, width, height\<close>.
\<close>

record Position =
  pos_x :: real
  pos_y :: real
  pos_width :: real
  pos_height :: real

type_synonym FloorPlanPosition = Position
type_synonym BackgroundPosition = Position

text \<open>A decoded \<^verbatim>\<open>HTMLImageElement\<close>: only its intrinsic size is read.\<close>

record HTMLImageElement =
  img_width :: real
  img_height :: real

subsection \<open>\<^verbatim>\<open>calculateImageFit\<close>\<close>

text \<open>
  The function is textually the same in both variants of the compositor. It divides by
  \<^verbatim>\<open>img.height\<close>, \<^verbatim>\<open>containerHeight\<close> and \<^verbatim>\<open>imgAspect\<close>; the results below are stated for
  positive sizes, where none of the divisors is zero.
\<close>

definition calculateImageFit :: "HTMLImageElement \<Rightarrow> real \<Rightarrow> real \<Rightarrow> Position" where
  "calculateImageFit img containerWidth containerHeight =
     (let imgAspect = img_width img / img_height img;
          containerAspect = containerWidth / containerHeight
      in if imgAspect > containerAspect
         then \<lparr> pos_x = 0,
                pos_y = (containerHeight - containerWidth / imgAspect) / 2,
                pos_width = containerWidth,
                pos_height = containerWidth / imgAspect \<rparr>
         else \<lparr> pos_x = (containerWidth - containerHeight * imgAspect) / 2,
                pos_y = 0,
                pos_width = containerHeight * imgAspect,
                pos_height = containerHeight \<rparr>)"

subsection \<open>The \<^verbatim>\<open>StoryCanvas\<close> component: state and hit tests\<close>

text \<open>
  A \<^verbatim>\<open>File\<close> is an opaque upload. The only thing the code does with it is \<^verbatim>\<open>loadImage\<close>,
  whose promise either resolves to a decoded image or rejects; the model keeps that outcome.
  A prop of type \<^verbatim>\<open>File | null\<close> is a \<^typ>\<open>'a option\<close>.
\<close>

datatype File = File (loadImage: "HTMLImageElement option")

text \<open>The two props that the pointer handlers read.\<close>

record StoryCanvasProps =
  backgroundImage :: "File option"
  floorPlan :: "File option"

text \<open>
  The component's \<^verbatim>\<open>useState\<close> cells, and the cursor style of the canvas element that
  the handlers write. Every handler reads the cells of the current render and writes each
  cell at most once, so a handler is a function from the state before the event to the state
  of the next render.
\<close>

record StoryCanvas =
  floorPlanPosition :: FloorPlanPosition
  backgroundPosition :: BackgroundPosition
  isDragging :: bool
  isResizing :: bool
  dragStart :: "real \<times> real"
  backgroundDragging :: bool
  backgroundResizing :: bool
  cursor :: string

text \<open>
  The initial cells: \<^verbatim>\<open>initialFloorPlanPosition || {...}\<close> and
  \<^verbatim>\<open>initialBackgroundPosition || {...}\<close>; an object is always truthy.
\<close>

definition initialStoryCanvas :: "FloorPlanPosition option \<Rightarrow> BackgroundPosition option \<Rightarrow> StoryCanvas" where
  "initialStoryCanvas initialFloorPlanPosition initialBackgroundPosition =
     \<lparr> floorPlanPosition =
         (case initialFloorPlanPosition of
            Some p \<Rightarrow> p
          | None \<Rightarrow> \<lparr> pos_x = 440, pos_y = 650, pos_width = 600, pos_height = 400 \<rparr>),
       backgroundPosition =
         (case initialBackgroundPosition of
            Some p \<Rightarrow> p
          | None \<Rightarrow> \<lparr> pos_x = 0, pos_y = 150, pos_width = 1080, pos_height = 1350 \<rparr>),
       isDragging = False,
       isResizing = False,
       dragStart = (0, 0),
       backgroundDragging = False,
       backgroundResizing = False,
       cursor = [] \<rparr>"

definition isInFloorPlan :: "StoryCanvasProps \<Rightarrow> StoryCanvas \<Rightarrow> real \<Rightarrow> real \<Rightarrow> bool" where
  "isInFloorPlan props s x y =
     (if floorPlan props = None then False
      else x \<ge> pos_x (floorPlanPosition s)
         \<and> x \<le> pos_x (floorPlanPosition s) + pos_width (floorPlanPosition s)
         \<and> y \<ge> pos_y (floorPlanPosition s)
         \<and> y \<le> pos_y (floorPlanPosition s) + pos_height (floorPlanPosition s))"

definition isInBackground :: "StoryCanvasProps \<Rightarrow> StoryCanvas \<Rightarrow> real \<Rightarrow> real \<Rightarrow> bool" where
  "isInBackground props s x y =
     (if backgroundImage props = None then False
      else x \<ge> pos_x (backgroundPosition s)
         \<and> x \<le> pos_x (backgroundPosition s) + pos_width (backgroundPosition s)
         \<and> y \<ge> pos_y (backgroundPosition s)
         \<and> y \<le> pos_y (backgroundPosition s) + pos_height (backgroundPosition s))"

definition isInResizeHandle :: "StoryCanvasProps \<Rightarrow> StoryCanvas \<Rightarrow> real \<Rightarrow> real \<Rightarrow> bool" where
  "isInResizeHandle props s x y =
     (if floorPlan props = None then False
      else let handleX = pos_x (floorPlanPosition s) + pos_width (floorPlanPosition s) - 20;
               handleY = pos_y (floorPlanPosition s) + pos_height (floorPlanPosition s) - 20
           in x \<ge> handleX \<and> x \<le> handleX + 20 \<and> y \<ge> handleY \<and> y \<le> handleY + 20)"

definition isInBackgroundResizeHandle :: "StoryCanvasProps \<Rightarrow> StoryCanvas \<Rightarrow> real \<Rightarrow> real \<Rightarrow> bool" where
  "isInBackgroundResizeHandle props s x y =
     (if backgroundImage props = None then False
      else let handleX = pos_x (backgroundPosition s) + pos_width (backgroundPosition s) - 20;
               handleY = pos_y (backgroundPosition s) + pos_height (backgroundPosition s) - 20
           in x \<ge> handleX \<and> x \<le> handleX + 20 \<and> y \<ge> handleY \<and> y \<le> handleY + 20)"

subsection \<open>The pointer handlers\<close>

text \<open>
  The handlers take the pointer position already mapped to canvas coordinates by
  \<^verbatim>\<open>getMousePos\<close>. Each \<^verbatim>\<open>return\<close> of the source is one branch of the conditional. Events
  come from the mounted canvas element, so \<^verbatim>\<open>canvasRef.current\<close> is set where the handlers
  test it; \<^verbatim>\<open>preventDefault\<close> does not touch the state.
\<close>

definition handleMouseDown :: "StoryCanvasProps \<Rightarrow> StoryCanvas \<Rightarrow> real \<times> real \<Rightarrow> StoryCanvas" where
  "handleMouseDown props s p =
     (let x = fst p; y = snd p in
      if floorPlan props \<noteq> None \<and> isInResizeHandle props s x y
      then s\<lparr> isResizing := True, dragStart := (x, y) \<rparr>
      else if backgroundImage props \<noteq> None \<and> isInBackgroundResizeHandle props s x y
      then s\<lparr> backgroundResizing := True, dragStart := (x, y) \<rparr>
      else if floorPlan props \<noteq> None \<and> isInFloorPlan props s x y
      then s\<lparr> isDragging := True,
               dragStart := (x - pos_x (floorPlanPosition s), y - pos_y (floorPlanPosition s)) \<rparr>
      else if backgroundImage props \<noteq> None \<and> isInBackground props s x y
      then s\<lparr> backgroundDragging := True,
               dragStart := (x - pos_x (backgroundPosition s), y - pos_y (backgroundPosition s)) \<rparr>
      else s)"

definition handleMouseMove :: "StoryCanvasProps \<Rightarrow> StoryCanvas \<Rightarrow> real \<times> real \<Rightarrow> StoryCanvas" where
  "handleMouseMove props s p =
     (let x = fst p; y = snd p in
      if isDragging s \<and> floorPlan props \<noteq> None
      then s\<lparr> floorPlanPosition := (floorPlanPosition s)
               \<lparr> pos_x := max 0 (min (1080 - pos_width (floorPlanPosition s)) (x - fst (dragStart s))),
                 pos_y := max 200 (min (1720 - pos_height (floorPlanPosition s)) (y - snd (dragStart s))) \<rparr> \<rparr>
      else if isResizing s \<and> floorPlan props \<noteq> None
      then let newWidth = max 100 (x - pos_x (floorPlanPosition s));
               newHeight = max 75 (y - pos_y (floorPlanPosition s))
           in s\<lparr> floorPlanPosition := (floorPlanPosition s)
                  \<lparr> pos_width := min newWidth (1070 - pos_x (floorPlanPosition s)),
                    pos_height := min newHeight (1910 - pos_y (floorPlanPosition s)) \<rparr> \<rparr>
      else if backgroundDragging s \<and> backgroundImage props \<noteq> None
      then s\<lparr> backgroundPosition := (backgroundPosition s)
               \<lparr> pos_x := max (- 200) (min 1280 (x - fst (dragStart s))),
                 pos_y := max 0 (min (1920 - pos_height (backgroundPosition s)) (y - snd (dragStart s))) \<rparr> \<rparr>
      else if backgroundResizing s \<and> backgroundImage props \<noteq> None
      then let newWidth = max 400 (x - pos_x (backgroundPosition s));
               newHeight = max 300 (y - pos_y (backgroundPosition s))
           in s\<lparr> backgroundPosition := (backgroundPosition s)
                  \<lparr> pos_width := min newWidth (1480 - pos_x (backgroundPosition s)),
                    pos_height := min newHeight (2220 - pos_y (backgroundPosition s)) \<rparr> \<rparr>
      else s\<lparr> cursor :=
               (if floorPlan props \<noteq> None \<and> isInResizeHandle props s x y then ''nw-resize''
                else if backgroundImage props \<noteq> None \<and> isInBackgroundResizeHandle props s x y then ''nw-resize''
                else if floorPlan props \<noteq> None \<and> isInFloorPlan props s x y then ''move''
                else if backgroundImage props \<noteq> None \<and> isInBackground props s x y then ''move''
                else ''default'') \<rparr>)"

text \<open>Bound to both \<^verbatim>\<open>onMouseUp\<close> and \<^verbatim>\<open>onMouseLeave\<close>.\<close>

definition handleMouseUp :: "StoryCanvas \<Rightarrow> StoryCanvas" where
  "handleMouseUp s =
     s\<lparr> isDragging := False, isResizing := False,
        backgroundDragging := False, backgroundResizing := False,
        cursor := ''default'' \<rparr>"

subsection \<open>Gestures\<close>

text \<open>
  The component keeps four flags rather than one gesture value. The gesture in force is the
  branch that \<^const>\<open>handleMouseMove\<close> takes: the flags are tested in the order of the source,
  each together with the presence of its layer's image.
\<close>

datatype Gesture =
  Idle | DraggingFloorPlan | ResizingFloorPlan | DraggingBackground | ResizingBackground

definition gesture :: "StoryCanvasProps \<Rightarrow> StoryCanvas \<Rightarrow> Gesture" where
  "gesture props s =
     (if isDragging s \<and> floorPlan props \<noteq> None then DraggingFloorPlan
      else if isResizing s \<and> floorPlan props \<noteq> None then ResizingFloorPlan
      else if backgroundDragging s \<and> backgroundImage props \<noteq> None then DraggingBackground
      else if backgroundResizing s \<and> backgroundImage props \<noteq> None then ResizingBackground
      else Idle)"

text \<open>No flag is set: the state between a pointer-up and the next pointer-down.\<close>

definition released :: "StoryCanvas \<Rightarrow> bool" where
  "released s \<longleftrightarrow>
     \<not> isDragging s \<and> \<not> isResizing s \<and> \<not> backgroundDragging s \<and> \<not> backgroundResizing s"

text \<open>
  The hit-testing order as the specification words it, for comparison with
  \<^const>\<open>handleMouseDown\<close>: four axis-aligned containment tests in priority order, the first
  match deciding the gesture. A resize handle is the 20 by 20 box whose bottom-right corner
  is the bottom-right corner of the layer's rectangle; a layer without an image matches
  nothing.
\<close>

definition contains :: "Position \<Rightarrow> real \<Rightarrow> real \<Rightarrow> bool" where
  "contains r x y \<longleftrightarrow>
     pos_x r \<le> x \<and> x \<le> pos_x r + pos_width r \<and> pos_y r \<le> y \<and> y \<le> pos_y r + pos_height r"

definition handle_box :: "Position \<Rightarrow> Position" where
  "handle_box r =
     \<lparr> pos_x = pos_x r + pos_width r - 20, pos_y = pos_y r + pos_height r - 20,
       pos_width = 20, pos_height = 20 \<rparr>"

definition spec_hit_tests :: "StoryCanvasProps \<Rightarrow> StoryCanvas \<Rightarrow> real \<Rightarrow> real \<Rightarrow> (bool \<times> Gesture) list" where
  "spec_hit_tests props s x y =
     [(floorPlan props \<noteq> None \<and> contains (handle_box (floorPlanPosition s)) x y, ResizingFloorPlan),
      (backgroundImage props \<noteq> None \<and> contains (handle_box (backgroundPosition s)) x y, ResizingBackground),
      (floorPlan props \<noteq> None \<and> contains (floorPlanPosition s) x y, DraggingFloorPlan),
      (backgroundImage props \<noteq> None \<and> contains (backgroundPosition s) x y, DraggingBackground)]"

definition spec_first_match :: "(bool \<times> Gesture) list \<Rightarrow> Gesture" where
  "spec_first_match tests = (case filter fst tests of [] \<Rightarrow> Idle | t # _ \<Rightarrow> snd t)"

text \<open>
  The transition on a match, in the specification's words: the gesture starts and the grab
  offset is stored, for a drag the pointer position minus the rectangle's origin, for a resize
  the pointer position; without a match nothing starts.
\<close>

definition spec_start :: "Gesture \<Rightarrow> real \<times> real \<Rightarrow> StoryCanvas \<Rightarrow> StoryCanvas" where
  "spec_start g p s =
     (case g of
        Idle \<Rightarrow> s
      | ResizingFloorPlan \<Rightarrow> s\<lparr> isResizing := True, dragStart := p \<rparr>
      | ResizingBackground \<Rightarrow> s\<lparr> backgroundResizing := True, dragStart := p \<rparr>
      | DraggingFloorPlan \<Rightarrow>
          s\<lparr> isDragging := True,
             dragStart := (fst p - pos_x (floorPlanPosition s), snd p - pos_y (floorPlanPosition s)) \<rparr>
      | DraggingBackground \<Rightarrow>
          s\<lparr> backgroundDragging := True,
             dragStart := (fst p - pos_x (backgroundPosition s), snd p - pos_y (backgroundPosition s)) \<rparr>)"

subsection \<open>Sessions\<close>

text \<open>
  A session is a sequence of events on the mounted component: the three pointer events and a
  change of the image props by the parent. Pointer events reach the canvas only while the
  pointer is over it, so their canvas coordinates lie in the canvas box.
\<close>

datatype Event =
  MouseDown real real | MouseMove real real | MouseUp | SetProps StoryCanvasProps

fun step :: "StoryCanvasProps \<times> StoryCanvas \<Rightarrow> Event \<Rightarrow> StoryCanvasProps \<times> StoryCanvas" where
  "step (props, s) (MouseDown x y) = (props, handleMouseDown props s (x, y))"
| "step (props, s) (MouseMove x y) = (props, handleMouseMove props s (x, y))"
| "step (props, s) MouseUp = (props, handleMouseUp s)"
| "step (props, s) (SetProps props') = (props', s)"

definition run :: "StoryCanvasProps \<times> StoryCanvas \<Rightarrow> Event list \<Rightarrow> StoryCanvasProps \<times> StoryCanvas" where
  "run = foldl step"

fun on_canvas :: "Event \<Rightarrow> bool" where
  "on_canvas (MouseDown x y) \<longleftrightarrow> 0 \<le> x \<and> x \<le> 1080 \<and> 0 \<le> y \<and> y \<le> 1920"
| "on_canvas (MouseMove x y) \<longleftrightarrow> 0 \<le> x \<and> x \<le> 1080 \<and> 0 \<le> y \<and> y \<le> 1920"
| "on_canvas MouseUp \<longleftrightarrow> True"
| "on_canvas (SetProps props') \<longleftrightarrow> True"

subsection \<open>Example data\<close>

text \<open>Props with both images attached.\<close>

definition both_images :: StoryCanvasProps where
  "both_images =
     \<lparr> backgroundImage = Some (File (Some \<lparr> img_width = 1920, img_height = 1080 \<rparr>)),
       floorPlan = Some (File (Some \<lparr> img_width = 800, img_height = 600 \<rparr>)) \<rparr>"

subsection \<open>Position bounds\<close>

text \<open>
  The permitted position bounds of the two layers as the specification states them, and the
  layout predicate that sessions keep: both rectangles within their bounds, the floor plan
  inside the canvas, the background at least 300 high.
\<close>

definition floor_plan_bounds :: "Position \<Rightarrow> bool" where
  "floor_plan_bounds r \<longleftrightarrow>
     0 \<le> pos_x r \<and> pos_x r \<le> 1080 - pos_width r \<and> 200 \<le> pos_y r \<and> pos_y r \<le> 1920 - pos_height r"

definition background_bounds :: "Position \<Rightarrow> bool" where
  "background_bounds r \<longleftrightarrow>
     - 200 \<le> pos_x r \<and> pos_x r \<le> 1280 \<and> 0 \<le> pos_y r \<and> pos_y r \<le> 1920 - pos_height r"

definition layout_ok :: "StoryCanvas \<Rightarrow> bool" where
  "layout_ok s \<longleftrightarrow>
     floor_plan_bounds (floorPlanPosition s) \<and> background_bounds (backgroundPosition s)
     \<and> 300 \<le> pos_height (backgroundPosition s)"

subsection \<open>Example sessions\<close>

text \<open>
  A session on the default layout, with every pointer position on the canvas: the background
  is shrunk to its minimum size by its handle, dragged to the right, and its handle is
  grabbed again. The last event is a pointer-move of that second resize gesture.
\<close>

definition resize_session :: "Event list" where
  "resize_session =
     [MouseDown 1070 1490, MouseMove 400 450, MouseUp,
      MouseDown 100 200, MouseMove 800 200, MouseUp,
      MouseDown 1080 440, MouseMove 1000 440]"

text \<open>
  Another such session: the floor plan is shrunk to its minimum size, dragged to the right
  edge, and resized again.
\<close>

definition narrow_session :: "Event list" where
  "narrow_session =
     [MouseDown 1030 1040, MouseMove 540 725, MouseUp,
      MouseDown 480 700, MouseMove 1080 700, MouseUp,
      MouseDown 1070 715, MouseMove 1080 725]"

text \<open>
  Props after the parent has removed the floor-plan image, and a session in which that
  happens in the middle of a floor-plan drag: pointer-down on the floor-plan body, removal of
  the image, pointer-move.
\<close>

definition background_only :: StoryCanvasProps where
  "background_only = both_images\<lparr> floorPlan := None \<rparr>"

definition orphaned_drag :: "Event list" where
  "orphaned_drag = [MouseDown 500 700, SetProps background_only, MouseMove 600 800]"

subsection \<open>The compositor \<^verbatim>\<open>drawStoryCanvas\<close>\<close>

text \<open>
  The compositor only talks to a 2D canvas context, so a render is modelled by the sequence
  of context calls and property assignments it makes, in program order. The text passed to
  \<^verbatim>\<open>fillText\<close> is computed from \<^verbatim>\<open>propertyData\<close> and from fixed captions; the model
  records which text is drawn, not its characters. One render is modelled on its own:
  the \<^verbatim>\<open>await\<close> on \<^verbatim>\<open>loadImage\<close> is a sequential step, and renders that overlap in time are
  outside the model.
\<close>

datatype FillStyle =
  Color string
| LinearGradient real real real real "(real \<times> string) list"

datatype Text =
  PropertyAddress | MortgageCaption | PropertyTypeLabel | PropertyArea | MonthlyPaymentCaption
| MonthlyPayment | BankRate | InitialPayment | TotalCost | BankLogo

datatype Call =
  SetCanvasSize real real
| SetFillStyle FillStyle
| FillRect real real real real
| DrawImage HTMLImageElement real real real real
| SetStrokeStyle string
| SetLineWidth real
| SetLineDash "real list"
| StrokeRect real real real real
| BeginPath
| MoveTo real real
| LineTo real real
| Stroke
| SetShadowColor string
| SetShadowBlur real
| SetShadowOffsetX real
| SetShadowOffsetY real
| SetFont string
| SetTextAlign string
| FillText Text real real
| ConsoleError string

abbreviation (input) CANVAS_WIDTH :: real where "CANVAS_WIDTH \<equiv> 1080"
abbreviation (input) CANVAS_HEIGHT :: real where "CANVAS_HEIGHT \<equiv> 1920"

text \<open>
  \<^verbatim>\<open>v || d\<close> on an optional number: the default is taken when the value is \<^verbatim>\<open>undefined\<close> and
  also when it is the falsy number \<^verbatim>\<open>0\<close>.
\<close>

definition or_default :: "real option \<Rightarrow> real \<Rightarrow> real" where
  "or_default v d = (case v of None \<Rightarrow> d | Some n \<Rightarrow> if n = 0 then d else n)"

text \<open>
  The rectangle of the floor plan, shared by both variants:
  \<^verbatim>\<open>planWidth = floorPlanPosition?.width || 480\<close>, \<^verbatim>\<open>planHeight = floorPlanPosition?.height || 320\<close>,
  \<^verbatim>\<open>planX = floorPlanPosition?.x || (CANVAS_WIDTH - planWidth - 60)\<close>,
  \<^verbatim>\<open>planY = floorPlanPosition?.y || 700\<close>.
\<close>

definition planRect :: "FloorPlanPosition option \<Rightarrow> Position" where
  "planRect floorPlanPosition' =
     (let planWidth = or_default (map_option pos_width floorPlanPosition') 480;
          planHeight = or_default (map_option pos_height floorPlanPosition') 320;
          planX = or_default (map_option pos_x floorPlanPosition') (CANVAS_WIDTH - planWidth - 60);
          planY = or_default (map_option pos_y floorPlanPosition') 700
      in \<lparr> pos_x = planX, pos_y = planY, pos_width = planWidth, pos_height = planHeight \<rparr>)"

text \<open>
  The rectangle of the background bitmap, shared by both variants: the given rectangle, or
  the aspect fit into the canvas width by 70 percent of the canvas height, moved down by 150.
\<close>

definition backgroundRect :: "HTMLImageElement \<Rightarrow> BackgroundPosition option \<Rightarrow> Position" where
  "backgroundRect img backgroundPosition' =
     (case backgroundPosition' of
        Some p \<Rightarrow> p
      | None \<Rightarrow>
          (let fit = calculateImageFit img CANVAS_WIDTH (CANVAS_HEIGHT * (7 / 10))
           in \<lparr> pos_x = pos_x fit, pos_y = pos_y fit + 150,
                pos_width = pos_width fit, pos_height = pos_height fit \<rparr>))"

text \<open>The six strokes of the resize glyph inside a handle at \<open>(handleX, handleY)\<close>.\<close>

definition resize_icon :: "real \<Rightarrow> real \<Rightarrow> Call list" where
  "resize_icon handleX handleY =
     [BeginPath,
      MoveTo (handleX + 6) (handleY + 14), LineTo (handleX + 14) (handleY + 6),
      MoveTo (handleX + 10) (handleY + 14), LineTo (handleX + 14) (handleY + 10),
      MoveTo (handleX + 6) (handleY + 10), LineTo (handleX + 10) (handleY + 6),
      Stroke]"

subsubsection \<open>The eight-parameter variant (\<^verbatim>\<open>src/unnamed/part_002\<close>)\<close>

definition draw_fill :: "string option \<Rightarrow> Call list" where
  "draw_fill backgroundColor =
     (case backgroundColor of
        Some c \<Rightarrow>
          if c \<noteq> [] then [SetFillStyle (Color c), FillRect 0 0 CANVAS_WIDTH CANVAS_HEIGHT]
          else [SetFillStyle (LinearGradient 0 0 CANVAS_WIDTH CANVAS_HEIGHT
                  [(0, ''hsl(217, 91%, 60%)''), (1, ''hsl(217, 91%, 45%)'')]),
                FillRect 0 0 CANVAS_WIDTH CANVAS_HEIGHT]
      | None \<Rightarrow>
          [SetFillStyle (LinearGradient 0 0 CANVAS_WIDTH CANVAS_HEIGHT
             [(0, ''hsl(217, 91%, 60%)''), (1, ''hsl(217, 91%, 45%)'')]),
           FillRect 0 0 CANVAS_WIDTH CANVAS_HEIGHT])"

definition draw_background :: "File option \<Rightarrow> BackgroundPosition option \<Rightarrow> bool \<Rightarrow> Call list" where
  "draw_background backgroundImage' backgroundPosition' showEditingHandles =
     (case backgroundImage' of
        None \<Rightarrow> []
      | Some file \<Rightarrow>
          (case loadImage file of
             None \<Rightarrow> [ConsoleError ''Failed to load background image:'']
           | Some img \<Rightarrow>
               (let r = backgroundRect img backgroundPosition';
                    bgX = pos_x r; bgY = pos_y r; bgWidth = pos_width r; bgHeight = pos_height r;
                    bgHandleX = bgX + bgWidth - 20;
                    bgHandleY = bgY + bgHeight - 20
                in [DrawImage img bgX bgY bgWidth bgHeight]
                   @ (if showEditingHandles
                      then [SetStrokeStyle ''rgba(255, 255, 255, 0.6)'', SetLineWidth 2,
                            SetLineDash [10, 5], StrokeRect bgX bgY bgWidth bgHeight, SetLineDash [],
                            SetFillStyle (Color ''rgba(255, 255, 255, 0.8)''),
                            FillRect bgHandleX bgHandleY 20 20,
                            SetStrokeStyle ''rgba(0, 0, 0, 0.4)'', SetLineWidth 1,
                            StrokeRect bgHandleX bgHandleY 20 20,
                            SetStrokeStyle ''rgba(0, 0, 0, 0.6)'', SetLineWidth 2]
                           @ resize_icon bgHandleX bgHandleY
                      else [])
                   @ [SetFillStyle (Color ''rgba(0, 0, 0, 0.3)''),
                      FillRect bgX bgY bgWidth bgHeight])))"

definition draw_floor_plan :: "File option \<Rightarrow> FloorPlanPosition option \<Rightarrow> bool \<Rightarrow> Call list" where
  "draw_floor_plan floorPlan' floorPlanPosition' showEditingHandles =
     (case floorPlan' of
        None \<Rightarrow> []
      | Some file \<Rightarrow>
          (case loadImage file of
             None \<Rightarrow> [ConsoleError ''Failed to load floor plan:'']
           | Some planImg \<Rightarrow>
               (let r = planRect floorPlanPosition';
                    planX = pos_x r; planY = pos_y r; planWidth = pos_width r; planHeight = pos_height r;
                    fit = calculateImageFit planImg (planWidth - 4) (planHeight - 4);
                    handleX = planX + planWidth - 20;
                    handleY = planY + planHeight - 20
                in [SetShadowColor ''rgba(0, 0, 0, 0.8)'', SetShadowBlur 10,
                    DrawImage planImg (planX + 2 + pos_x fit) (planY + 2 + pos_y fit)
                      (pos_width fit) (pos_height fit),
                    SetShadowBlur 0]
                   @ (if showEditingHandles
                      then [SetStrokeStyle ''rgba(255, 255, 255, 0.8)'', SetLineWidth 2,
                            SetLineDash [5, 5], StrokeRect planX planY planWidth planHeight, SetLineDash [],
                            SetFillStyle (Color ''rgba(255, 255, 255, 0.9)''),
                            FillRect handleX handleY 20 20,
                            SetStrokeStyle ''rgba(0, 0, 0, 0.5)'', SetLineWidth 1,
                            StrokeRect handleX handleY 20 20,
                            SetStrokeStyle ''rgba(0, 0, 0, 0.7)'', SetLineWidth 2]
                           @ resize_icon handleX handleY
                      else []))))"

text \<open>
  The text layers. The header, the card and its captions are the same in both variants; so is
  the bank name, drawn 70 below the variant's \<^verbatim>\<open>bottomY\<close>.
\<close>

definition draw_card :: "Call list" where
  "draw_card =
     (let cardY = CANVAS_HEIGHT - 600; cardHeight = 300; cardPadding = 40
      in [SetFillStyle (Color ''white''), SetFont ''bold 64px Inter, sans-serif'',
          SetTextAlign ''center'', SetShadowColor ''rgba(0, 0, 0, 0.5)'', SetShadowBlur 10,
          FillText PropertyAddress (CANVAS_WIDTH / 2) 150,
          SetShadowBlur 0,
          SetFillStyle (Color ''rgba(0, 0, 0, 0.7)''),
          FillRect cardPadding cardY (CANVAS_WIDTH - cardPadding * 2) cardHeight,
          SetFillStyle (Color ''white''), SetTextAlign ''left'',
          SetFont ''32px Inter, sans-serif'', SetFillStyle (Color ''#9CA3AF''),
          FillText MortgageCaption (cardPadding + 30) (cardY + 60),
          SetFont ''bold 40px Inter, sans-serif'', SetFillStyle (Color ''white''),
          FillText PropertyTypeLabel (cardPadding + 30) (cardY + 110),
          SetFont ''32px Inter, sans-serif'',
          FillText PropertyArea (cardPadding + 30) (cardY + 150),
          SetTextAlign ''right'', SetFont ''32px Inter, sans-serif'', SetFillStyle (Color ''#9CA3AF''),
          FillText MonthlyPaymentCaption (CANVAS_WIDTH - cardPadding - 30) (cardY + 60),
          SetFont ''bold 56px Inter, sans-serif'', SetFillStyle (Color ''white''),
          FillText MonthlyPayment (CANVAS_WIDTH - cardPadding - 30) (cardY + 120),
          SetFont ''28px Inter, sans-serif'', SetFillStyle (Color ''#9CA3AF''), SetTextAlign ''left'',
          FillText BankRate (cardPadding + 30) (cardY + 220)])"

definition draw_bank_logo :: "real \<Rightarrow> Call list" where
  "draw_bank_logo bottomY =
     (let cardPadding = 40
      in [SetShadowBlur 0, SetShadowOffsetX 0, SetShadowOffsetY 0,
          SetTextAlign ''right'', SetFont ''bold 36px Inter, sans-serif'', SetFillStyle (Color ''white''),
          SetShadowColor ''rgba(0, 0, 0, 0.8)'', SetShadowBlur 6, SetShadowOffsetX 2, SetShadowOffsetY 2,
          FillText BankLogo (CANVAS_WIDTH - cardPadding - 30) (bottomY + 70),
          SetShadowBlur 0, SetShadowOffsetX 0, SetShadowOffsetY 0])"

definition draw_bottom :: "Call list" where
  "draw_bottom =
     (let bottomY = CANVAS_HEIGHT - 160; leftPadding = 60
      in [SetFont ''bold 48px Inter, sans-serif'',
          SetShadowColor ''rgba(0, 0, 0, 1)'', SetShadowBlur 8, SetShadowOffsetX 3, SetShadowOffsetY 3,
          SetFillStyle (Color ''white''), SetTextAlign ''left'',
          FillText InitialPayment leftPadding bottomY,
          FillText TotalCost leftPadding (bottomY + 60)]
         @ draw_bank_logo bottomY)"

text \<open>
  \<^verbatim>\<open>drawStoryCanvas(canvas, propertyData, backgroundImage, floorPlan, floorPlanPosition,
  backgroundPosition, backgroundColor, showEditingHandles)\<close>. The first argument of the model
  says whether \<^verbatim>\<open>canvas.getContext("2d")\<close> gave a context; without one the function returns at
  once.
\<close>

definition drawStoryCanvas ::
  "bool \<Rightarrow> File option \<Rightarrow> File option \<Rightarrow> FloorPlanPosition option \<Rightarrow> BackgroundPosition option
     \<Rightarrow> string option \<Rightarrow> bool \<Rightarrow> Call list" where
  "drawStoryCanvas ctx backgroundImage' floorPlan' floorPlanPosition' backgroundPosition'
       backgroundColor showEditingHandles =
     (if \<not> ctx then []
      else [SetCanvasSize CANVAS_WIDTH CANVAS_HEIGHT]
           @ draw_fill backgroundColor
           @ draw_background backgroundImage' backgroundPosition' showEditingHandles
           @ draw_floor_plan floorPlan' floorPlanPosition' showEditingHandles
           @ draw_card
           @ draw_bottom)"


subsubsection \<open>The six-parameter variant (\<^verbatim>\<open>src/client/src/lib/canvas-utils.ts\<close>)\<close>

text \<open>
  This variant has no \<^verbatim>\<open>backgroundColor\<close> and no editing handles, draws the floor plan after
  the card with an inset of 10, and fills its dark overlay over the whole canvas.
\<close>

definition draw_background_lib :: "File option \<Rightarrow> BackgroundPosition option \<Rightarrow> Call list" where
  "draw_background_lib backgroundImage' backgroundPosition' =
     (case backgroundImage' of
        None \<Rightarrow> []
      | Some file \<Rightarrow>
          (case loadImage file of
             None \<Rightarrow> [ConsoleError ''Failed to load background image:'']
           | Some img \<Rightarrow>
               (let r = backgroundRect img backgroundPosition'
                in [DrawImage img (pos_x r) (pos_y r) (pos_width r) (pos_height r),
                    SetFillStyle (Color ''rgba(0, 0, 0, 0.3)''),
                    FillRect 0 0 CANVAS_WIDTH CANVAS_HEIGHT])))"

definition draw_floor_plan_lib :: "File option \<Rightarrow> FloorPlanPosition option \<Rightarrow> Call list" where
  "draw_floor_plan_lib floorPlan' floorPlanPosition' =
     (case floorPlan' of
        None \<Rightarrow> []
      | Some file \<Rightarrow>
          (case loadImage file of
             None \<Rightarrow> [ConsoleError ''Failed to load floor plan:'']
           | Some planImg \<Rightarrow>
               (let r = planRect floorPlanPosition';
                    planX = pos_x r; planY = pos_y r; planWidth = pos_width r; planHeight = pos_height r;
                    fit = calculateImageFit planImg (planWidth - 20) (planHeight - 20)
                in [SetShadowColor ''rgba(0, 0, 0, 0.8)'', SetShadowBlur 10,
                    DrawImage planImg (planX + 10 + pos_x fit) (planY + 10 + pos_y fit)
                      (pos_width fit) (pos_height fit),
                    SetShadowBlur 0])))"

definition draw_bottom_lib :: "Call list" where
  "draw_bottom_lib =
     (let bottomY = CANVAS_HEIGHT - 180; cardPadding = 40
      in [SetFont ''bold 32px Inter, sans-serif'',
          SetShadowColor ''rgba(0, 0, 0, 0.8)'', SetShadowBlur 6, SetShadowOffsetX 2, SetShadowOffsetY 2,
          SetFillStyle (Color ''white''), SetTextAlign ''left'',
          FillText InitialPayment (cardPadding + 30) bottomY,
          SetTextAlign ''right'',
          FillText TotalCost (CANVAS_WIDTH - cardPadding - 30) bottomY]
         @ draw_bank_logo bottomY)"

definition drawStoryCanvas_lib ::
  "bool \<Rightarrow> File option \<Rightarrow> File option \<Rightarrow> FloorPlanPosition option \<Rightarrow> BackgroundPosition option
     \<Rightarrow> Call list" where
  "drawStoryCanvas_lib ctx backgroundImage' floorPlan' floorPlanPosition' backgroundPosition' =
     (if \<not> ctx then []
      else [SetCanvasSize CANVAS_WIDTH CANVAS_HEIGHT,
            SetFillStyle (LinearGradient 0 0 CANVAS_WIDTH CANVAS_HEIGHT
              [(0, ''hsl(217, 91%, 60%)''), (1, ''hsl(217, 91%, 45%)'')]),
            FillRect 0 0 CANVAS_WIDTH CANVAS_HEIGHT]
           @ draw_background_lib backgroundImage' backgroundPosition'
           @ draw_card
           @ draw_floor_plan_lib floorPlan' floorPlanPosition'
           @ draw_bottom_lib)"

subsubsection \<open>What a sequence of calls paints\<close>

text \<open>
  The areas painted by a call sequence, in order: every \<^verbatim>\<open>fillRect\<close> with the fill style in
  force when it is called, and every \<^verbatim>\<open>drawImage\<close>. Strokes and text are left out. A fresh
  context has the fill style \<^verbatim>\<open>#000000\<close>.
\<close>

datatype Paint = Filled FillStyle Position | Image HTMLImageElement Position

fun painted :: "FillStyle \<Rightarrow> Call list \<Rightarrow> Paint list" where
  "painted st [] = []"
| "painted st (SetFillStyle st' # cs) = painted st' cs"
| "painted st (FillRect x y w h # cs) =
     Filled st \<lparr> pos_x = x, pos_y = y, pos_width = w, pos_height = h \<rparr> # painted st cs"
| "painted st (DrawImage img x y w h # cs) =
     Image img \<lparr> pos_x = x, pos_y = y, pos_width = w, pos_height = h \<rparr> # painted st cs"
| "painted st (c # cs) = painted st cs"

fun style_after :: "FillStyle \<Rightarrow> Call list \<Rightarrow> FillStyle" where
  "style_after st [] = st"
| "style_after st (SetFillStyle st' # cs) = style_after st' cs"
| "style_after st (c # cs) = style_after st cs"

definition paints :: "Call list \<Rightarrow> Paint list" where
  "paints cs = painted (Color ''#000000'') cs"

text \<open>The 30 percent black overlay, the rectangles it is filled over, and the bitmaps drawn.\<close>

definition scrim :: FillStyle where
  "scrim = Color ''rgba(0, 0, 0, 0.3)''"

fun scrim_rects :: "Paint list \<Rightarrow> Position list" where
  "scrim_rects [] = []"
| "scrim_rects (Filled st r # ps) = (if st = scrim then r # scrim_rects ps else scrim_rects ps)"
| "scrim_rects (Image img r # ps) = scrim_rects ps"

fun images :: "Paint list \<Rightarrow> (HTMLImageElement \<times> Position) list" where
  "images [] = []"
| "images (Filled st r # ps) = images ps"
| "images (Image img r # ps) = (img, r) # images ps"

text \<open>What is painted after the first bitmap.\<close>

fun after_first_image :: "Paint list \<Rightarrow> Paint list" where
  "after_first_image [] = []"
| "after_first_image (Filled st r # ps) = after_first_image ps"
| "after_first_image (Image img r # ps) = ps"

subsection \<open>\<^verbatim>\<open>calculateMonthlyPayment\<close>\<close>

text \<open>
  The result is a number or, when the division is by zero, \<^verbatim>\<open>Infinity\<close>: with a positive
  loan and a positive rate the numerator is positive, and \<^verbatim>\<open>Math.round\<close> and the division by
  100 leave \<^verbatim>\<open>Infinity\<close> as it is. \<^verbatim>\<open>Math.round\<close> rounds to the nearest integer, halves
  upwards. The parameter \<^verbatim>\<open>years\<close> has the default 30; an omitted argument is \<open>None\<close>.
  \<^verbatim>\<open>Math.pow\<close> is only called on a base above 1, where it is \<^const>\<open>powr\<close>.
\<close>

datatype JSNumber = Finite real | Infinity

definition Math_round :: "real \<Rightarrow> real" where
  "Math_round v = of_int \<lfloor>v + 1 / 2\<rfloor>"

definition calculateMonthlyPayment :: "real \<Rightarrow> real \<Rightarrow> real \<Rightarrow> real option \<Rightarrow> JSNumber" where
  "calculateMonthlyPayment totalCost initialPayment rate years' =
     (let years = (case years' of None \<Rightarrow> 30 | Some n \<Rightarrow> n) in
      if totalCost \<le> 0 \<or> initialPayment < 0 \<or> rate \<le> 0 then Finite 0
      else let loanAmount = totalCost - initialPayment in
        if loanAmount \<le> 0 then Finite 0
        else let monthlyRate = rate / 100 / 12;
                 totalPayments = years * 12;
                 numerator = loanAmount * monthlyRate * (1 + monthlyRate) powr totalPayments;
                 denominator = (1 + monthlyRate) powr totalPayments - 1
             in if denominator = 0 then Infinity
                else Finite (Math_round (numerator / denominator * 100) / 100))"

text \<open>
  The standard annuity, for comparison: the level payment on a principal \<open>P\<close> at periodic rate
  \<open>i\<close> over \<open>n\<close> periods, in its textbook form, and the outstanding balance after \<open>k\<close> payments
  of \<open>A\<close>, each period adding interest and deducting one payment.
\<close>

definition annuity_payment :: "real \<Rightarrow> real \<Rightarrow> real \<Rightarrow> real" where
  "annuity_payment P i n = P * i / (1 - (1 + i) powr (- n))"

fun balance :: "real \<Rightarrow> real \<Rightarrow> real \<Rightarrow> nat \<Rightarrow> real" where
  "balance P i A 0 = P"
| "balance P i A (Suc k) = balance P i A k * (1 + i) - A"

subsection \<open>The debounced position notification\<close>

text \<open>
  The component's second effect arms a timer of 100 ms whose callback calls
  \<^verbatim>\<open>onPositionChange(floorPlanPosition, backgroundPosition)\<close> when that prop is set, and its
  cleanup clears the timer. The dependencies are the two position cells and the callback, so
  the framework runs the cleanup and then the effect again after every render in which a
  position cell was written.

  The timers of the host are modelled with a virtual clock in milliseconds: \<^verbatim>\<open>setTimeout\<close>
  adds a pending timer due after the delay and returns its id, \<^verbatim>\<open>clearTimeout\<close> removes the
  timer with that id, and letting time pass up to \<open>T\<close> runs the callbacks of the timers due by
  then, earliest first. A timer keeps what its closure captured: whether a listener was set
  and the two rectangles of that render.
\<close>

type_synonym Layout = "FloorPlanPosition \<times> BackgroundPosition"

datatype Timer = Timer (timer_id: nat) (due: nat) (has_listener: bool) (captured: Layout)

record EventLoop =
  clock :: nat
  timers :: "Timer list"
  next_timer :: nat
  timeoutId :: "nat option"
  notifications :: "Layout list"

definition setTimeout :: "bool \<Rightarrow> Layout \<Rightarrow> nat \<Rightarrow> EventLoop \<Rightarrow> nat \<times> EventLoop" where
  "setTimeout listener layout delay el =
     (next_timer el,
      el\<lparr> timers := timers el @ [Timer (next_timer el) (clock el + delay) listener layout],
          next_timer := Suc (next_timer el) \<rparr>)"

definition clearTimeout :: "nat \<Rightarrow> EventLoop \<Rightarrow> EventLoop" where
  "clearTimeout i el = el\<lparr> timers := filter (\<lambda>t. timer_id t \<noteq> i) (timers el) \<rparr>"

text \<open>
  The effect body and the cleanup it returns; \<^const>\<open>timeoutId\<close> is the id that the cleanup
  closure of the last effect run holds (none before the component is mounted).
\<close>

definition effect :: "bool \<Rightarrow> Layout \<Rightarrow> EventLoop \<Rightarrow> EventLoop" where
  "effect onPositionChange layout el =
     (case setTimeout onPositionChange layout 100 el of
        (i, el') \<Rightarrow> el'\<lparr> timeoutId := Some i \<rparr>)"

definition cleanup :: "EventLoop \<Rightarrow> EventLoop" where
  "cleanup el = (case timeoutId el of None \<Rightarrow> el | Some i \<Rightarrow> clearTimeout i el)"

text \<open>A render after a rectangle mutation: the cleanup of the previous effect, then the effect.\<close>

definition mutation :: "bool \<Rightarrow> Layout \<Rightarrow> EventLoop \<Rightarrow> EventLoop" where
  "mutation onPositionChange layout el = effect onPositionChange layout (cleanup el)"

text \<open>Time passes up to \<open>T\<close>: the timers due by then fire, earliest first.\<close>

definition advance :: "nat \<Rightarrow> EventLoop \<Rightarrow> EventLoop" where
  "advance T el =
     (let fired = sort_key due (filter (\<lambda>t. due t \<le> T) (timers el))
      in el\<lparr> clock := max (clock el) T,
             timers := filter (\<lambda>t. \<not> due t \<le> T) (timers el),
             notifications := notifications el @ map captured (filter has_listener fired) \<rparr>)"

text \<open>A sequence of mutations, each with the time at which it happens.\<close>

fun play :: "bool \<Rightarrow> (nat \<times> Layout) list \<Rightarrow> EventLoop \<Rightarrow> EventLoop" where
  "play onPositionChange [] el = el"
| "play onPositionChange ((t, layout) # ms) el =
     play onPositionChange ms (mutation onPositionChange layout (advance t el))"

text \<open>
  Each mutation follows the previous one (at \<open>t0\<close>) by less than the delay; a burst that lies
  within 100 ms as a whole is spaced like this.
\<close>

fun closely_spaced :: "nat \<Rightarrow> (nat \<times> Layout) list \<Rightarrow> bool" where
  "closely_spaced t0 [] \<longleftrightarrow> True"
| "closely_spaced t0 ((t, layout) # ms) \<longleftrightarrow> t0 \<le> t \<and> t < t0 + 100 \<and> closely_spaced t ms"

text \<open>At most one timer is pending, and it is the one the cleanup would clear.\<close>

definition single_timer :: "EventLoop \<Rightarrow> bool" where
  "single_timer el \<longleftrightarrow>
     (case timers el of
        [] \<Rightarrow> True
      | [t] \<Rightarrow> timeoutId el = Some (timer_id t)
      | _ \<Rightarrow> False)"

text \<open>The loop just after a mutation at time \<open>t\<close>: one timer, due 100 ms later.\<close>

definition armed :: "bool \<Rightarrow> nat \<Rightarrow> Layout \<Rightarrow> EventLoop \<Rightarrow> bool" where
  "armed onPositionChange t layout el \<longleftrightarrow>
     clock el = t
     \<and> (case timeoutId el of
           None \<Rightarrow> False
         | Some i \<Rightarrow> timers el = [Timer i (t + 100) onPositionChange layout])"

text \<open>The loop of a component mounted at time 0 with the default layout and a listener.\<close>

definition mounted :: EventLoop where
  "mounted =
     effect True (floorPlanPosition (initialStoryCanvas None None),
                  backgroundPosition (initialStoryCanvas None None))
       \<lparr> clock = 0, timers = [], next_timer = 0, timeoutId = None, notifications = [] \<rparr>"

text \<open>Five mutations within 100 ms: the background moves right in five steps.\<close>

definition burst5 :: "(nat \<times> Layout) list" where
  "burst5 =
     map (\<lambda>k. (10 + 20 * k,
               (floorPlanPosition (initialStoryCanvas None None),
                (backgroundPosition (initialStoryCanvas None None))\<lparr> pos_x := real (10 * Suc k) \<rparr>)))
       [0, 1, 2, 3, 4]"

text \<open>
  What sessions keep beyond \<^const>\<open>layout_ok\<close>: the minimum width of the background, the minimum
  height of the floor plan with its origin at most 1720 down, and, while the background resize
  flag is set without the drag flag, a background origin at most 700 across (the handle was
  grabbed on the canvas).
\<close>

definition session_ok :: "StoryCanvas \<Rightarrow> bool" where
  "session_ok s \<longleftrightarrow>
     layout_ok s
     \<and> 400 \<le> pos_width (backgroundPosition s)
     \<and> 75 \<le> pos_height (floorPlanPosition s)
     \<and> pos_y (floorPlanPosition s) \<le> 1720
     \<and> (backgroundResizing s \<and> \<not> backgroundDragging s \<longrightarrow> pos_x (backgroundPosition s) \<le> 700)"

section \<open>Results\<close>

subsection \<open>Aspect fit\<close>





subsection \<open>The handlers, branch by branch\<close>

lemma handle_box_contains:
  "contains (handle_box r) x y \<longleftrightarrow>
     (let handleX = pos_x r + pos_width r - 20; handleY = pos_y r + pos_height r - 20
      in x \<ge> handleX \<and> x \<le> handleX + 20 \<and> y \<ge> handleY \<and> y \<le> handleY + 20)"
  by (simp add: contains_def handle_box_def Let_def)

lemma hit_tests_agree:
  "(floorPlan props \<noteq> None \<and> isInResizeHandle props s x y)
     = (floorPlan props \<noteq> None \<and> contains (handle_box (floorPlanPosition s)) x y)"
  "(backgroundImage props \<noteq> None \<and> isInBackgroundResizeHandle props s x y)
     = (backgroundImage props \<noteq> None \<and> contains (handle_box (backgroundPosition s)) x y)"
  "(floorPlan props \<noteq> None \<and> isInFloorPlan props s x y)
     = (floorPlan props \<noteq> None \<and> contains (floorPlanPosition s) x y)"
  "(backgroundImage props \<noteq> None \<and> isInBackground props s x y)
     = (backgroundImage props \<noteq> None \<and> contains (backgroundPosition s) x y)"
     apply (simp_all add: isInResizeHandle_def isInBackgroundResizeHandle_def isInFloorPlan_def
      isInBackground_def handle_box_contains Let_def)
   apply (simp_all add: contains_def)
  done

lemma handleMouseDown_cases:
  "handleMouseDown props s (x, y) =
     (if floorPlan props \<noteq> None \<and> contains (handle_box (floorPlanPosition s)) x y
      then s\<lparr> isResizing := True, dragStart := (x, y) \<rparr>
      else if backgroundImage props \<noteq> None \<and> contains (handle_box (backgroundPosition s)) x y
      then s\<lparr> backgroundResizing := True, dragStart := (x, y) \<rparr>
      else if floorPlan props \<noteq> None \<and> contains (floorPlanPosition s) x y
      then s\<lparr> isDragging := True,
               dragStart := (x - pos_x (floorPlanPosition s), y - pos_y (floorPlanPosition s)) \<rparr>
      else if backgroundImage props \<noteq> None \<and> contains (backgroundPosition s) x y
      then s\<lparr> backgroundDragging := True,
               dragStart := (x - pos_x (backgroundPosition s), y - pos_y (backgroundPosition s)) \<rparr>
      else s)"
  unfolding handleMouseDown_def Let_def fst_conv snd_conv hit_tests_agree ..


lemma spec_first_match_simps:
  "spec_first_match [] = Idle"
  "spec_first_match ((b, g) # ts) = (if b then g else spec_first_match ts)"
  by (simp_all add: spec_first_match_def)

lemma spec_first_match_hit_tests:
  "spec_first_match (spec_hit_tests props s x y) = 
     (if floorPlan props \<noteq> None \<and> contains (handle_box (floorPlanPosition s)) x y
      then ResizingFloorPlan
      else if backgroundImage props \<noteq> None \<and> contains (handle_box (backgroundPosition s)) x y
      then ResizingBackground
      else if floorPlan props \<noteq> None \<and> contains (floorPlanPosition s) x y
      then DraggingFloorPlan
      else if backgroundImage props \<noteq> None \<and> contains (backgroundPosition s) x y
      then DraggingBackground
      else Idle)"
  unfolding spec_hit_tests_def spec_first_match_simps ..

lemma gesture_after_down:
  assumes "released s"
  shows "gesture props (handleMouseDown props s (x, y)) = spec_first_match (spec_hit_tests props s x y)"
  using assms
  by (simp add: handleMouseDown_cases spec_first_match_hit_tests gesture_def released_def)

lemma no_match_unchanged:
  assumes "spec_first_match (spec_hit_tests props s x y) = Idle"
  shows "handleMouseDown props s (x, y) = s"
proof -
  from assms have
    "\<not> (floorPlan props \<noteq> None \<and> contains (handle_box (floorPlanPosition s)) x y)"
    "\<not> (backgroundImage props \<noteq> None \<and> contains (handle_box (backgroundPosition s)) x y)"
    "\<not> (floorPlan props \<noteq> None \<and> contains (floorPlanPosition s) x y)"
    "\<not> (backgroundImage props \<noteq> None \<and> contains (backgroundPosition s) x y)"
    unfolding spec_first_match_hit_tests by (simp_all split: if_splits)
  then show ?thesis
    unfolding handleMouseDown_cases by (simp only: if_False)
qed

lemma strictly_inside:
  assumes "floorPlan props \<noteq> None"
    and "pos_x (floorPlanPosition s) + pos_width (floorPlanPosition s) - 20 < x"
    and "x < pos_x (floorPlanPosition s) + pos_width (floorPlanPosition s)"
    and "pos_y (floorPlanPosition s) + pos_height (floorPlanPosition s) - 20 < y"
    and "y < pos_y (floorPlanPosition s) + pos_height (floorPlanPosition s)"
  shows "spec_first_match (spec_hit_tests props s x y) = ResizingFloorPlan"
  using assms unfolding spec_first_match_hit_tests by (simp add: contains_def handle_box_def)

lemma gesture_DraggingFloorPlan:
  "gesture props s = DraggingFloorPlan \<longleftrightarrow> isDragging s \<and> floorPlan props \<noteq> None"
  by (auto simp add: gesture_def)

lemma gesture_ResizingFloorPlan:
  "gesture props s = ResizingFloorPlan \<longleftrightarrow>
     \<not> (isDragging s \<and> floorPlan props \<noteq> None) \<and> isResizing s \<and> floorPlan props \<noteq> None"
  by (auto simp add: gesture_def)

lemma gesture_DraggingBackground:
  "gesture props s = DraggingBackground \<longleftrightarrow>
     \<not> (isDragging s \<and> floorPlan props \<noteq> None) \<and> \<not> (isResizing s \<and> floorPlan props \<noteq> None)
     \<and> backgroundDragging s \<and> backgroundImage props \<noteq> None"
  by (auto simp add: gesture_def)

lemma gesture_ResizingBackground:
  "gesture props s = ResizingBackground \<longleftrightarrow>
     \<not> (isDragging s \<and> floorPlan props \<noteq> None) \<and> \<not> (isResizing s \<and> floorPlan props \<noteq> None)
     \<and> \<not> (backgroundDragging s \<and> backgroundImage props \<noteq> None)
     \<and> backgroundResizing s \<and> backgroundImage props \<noteq> None"
  by (auto simp add: gesture_def)

lemma gesture_Idle:
  "gesture props s = Idle \<longleftrightarrow>
     \<not> (isDragging s \<and> floorPlan props \<noteq> None) \<and> \<not> (isResizing s \<and> floorPlan props \<noteq> None)
     \<and> \<not> (backgroundDragging s \<and> backgroundImage props \<noteq> None)
     \<and> \<not> (backgroundResizing s \<and> backgroundImage props \<noteq> None)"
  by (auto simp add: gesture_def)

lemma move_DraggingFloorPlan:
  assumes "gesture props s = DraggingFloorPlan"
  shows "handleMouseMove props s (x, y) =
     s\<lparr> floorPlanPosition := (floorPlanPosition s)
        \<lparr> pos_x := max 0 (min (1080 - pos_width (floorPlanPosition s)) (x - fst (dragStart s))),
          pos_y := max 200 (min (1720 - pos_height (floorPlanPosition s)) (y - snd (dragStart s))) \<rparr> \<rparr>"
proof -
  from assms have a: "isDragging s \<and> floorPlan props \<noteq> None"
    using gesture_DraggingFloorPlan [of props s] by blast
  show ?thesis
    unfolding handleMouseMove_def Let_def fst_conv snd_conv by (simp only: if_P [OF a])
qed

lemma move_ResizingFloorPlan:
  assumes "gesture props s = ResizingFloorPlan"
  shows "handleMouseMove props s (x, y) =
     s\<lparr> floorPlanPosition := (floorPlanPosition s)
        \<lparr> pos_width := min (max 100 (x - pos_x (floorPlanPosition s))) (1070 - pos_x (floorPlanPosition s)),
          pos_height := min (max 75 (y - pos_y (floorPlanPosition s))) (1910 - pos_y (floorPlanPosition s)) \<rparr> \<rparr>"
proof -
  from assms have a: "\<not> (isDragging s \<and> floorPlan props \<noteq> None)"
    and b: "isResizing s \<and> floorPlan props \<noteq> None"
    using gesture_ResizingFloorPlan [of props s] by blast+
  show ?thesis
    unfolding handleMouseMove_def Let_def fst_conv snd_conv
    by (simp only: if_not_P [OF a] if_P [OF b])
qed

lemma move_DraggingBackground:
  assumes "gesture props s = DraggingBackground"
  shows "handleMouseMove props s (x, y) =
     s\<lparr> backgroundPosition := (backgroundPosition s)
        \<lparr> pos_x := max (- 200) (min 1280 (x - fst (dragStart s))),
          pos_y := max 0 (min (1920 - pos_height (backgroundPosition s)) (y - snd (dragStart s))) \<rparr> \<rparr>"
proof -
  from assms have a: "\<not> (isDragging s \<and> floorPlan props \<noteq> None)"
    and b: "\<not> (isResizing s \<and> floorPlan props \<noteq> None)"
    and c: "backgroundDragging s \<and> backgroundImage props \<noteq> None"
    using gesture_DraggingBackground [of props s] by blast+
  show ?thesis
    unfolding handleMouseMove_def Let_def fst_conv snd_conv
    by (simp only: if_not_P [OF a] if_not_P [OF b] if_P [OF c])
qed

lemma move_ResizingBackground:
  assumes "gesture props s = ResizingBackground"
  shows "handleMouseMove props s (x, y) =
     s\<lparr> backgroundPosition := (backgroundPosition s)
        \<lparr> pos_width := min (max 400 (x - pos_x (backgroundPosition s))) (1480 - pos_x (backgroundPosition s)),
          pos_height := min (max 300 (y - pos_y (backgroundPosition s))) (2220 - pos_y (backgroundPosition s)) \<rparr> \<rparr>"
proof -
  from assms have a: "\<not> (isDragging s \<and> floorPlan props \<noteq> None)"
    and b: "\<not> (isResizing s \<and> floorPlan props \<noteq> None)"
    and c: "\<not> (backgroundDragging s \<and> backgroundImage props \<noteq> None)"
    and d: "backgroundResizing s \<and> backgroundImage props \<noteq> None"
    using gesture_ResizingBackground [of props s] by blast+
  show ?thesis
    unfolding handleMouseMove_def Let_def fst_conv snd_conv
    by (simp only: if_not_P [OF a] if_not_P [OF b] if_not_P [OF c] if_P [OF d])
qed

lemma move_Idle:
  assumes "gesture props s = Idle"
  shows "\<exists>c. handleMouseMove props s (x, y) = s\<lparr> cursor := c \<rparr>"
proof -
  from assms have a: "\<not> (isDragging s \<and> floorPlan props \<noteq> None)"
    and b: "\<not> (isResizing s \<and> floorPlan props \<noteq> None)"
    and c: "\<not> (backgroundDragging s \<and> backgroundImage props \<noteq> None)"
    and d: "\<not> (backgroundResizing s \<and> backgroundImage props \<noteq> None)"
    using gesture_Idle [of props s] by blast+
  show ?thesis
    unfolding handleMouseMove_def Let_def fst_conv snd_conv
    by (simp only: if_not_P [OF a] if_not_P [OF b] if_not_P [OF c] if_not_P [OF d]) (rule exI, rule refl)
qed

subsection \<open>Pointer-down priority\<close>

lemma handleMouseDown_spec_start:
  "handleMouseDown props s (x, y) = spec_start (spec_first_match (spec_hit_tests props s x y)) (x, y) s"
  unfolding handleMouseDown_cases spec_first_match_hit_tests
  by (simp add: spec_start_def)

text \<open>
  C2. On pointer-down the gesture is decided by the first matching hit test in the order
  floor-plan resize handle, background resize handle, floor-plan body, background body:
  \<^const>\<open>handleMouseDown\<close> makes the transition of the first match of the specification's
  list, and from a state with no gesture flag set the gesture then in force is that first
  match. In particular a point strictly inside the floor-plan resize handle starts
  \<open>ResizingFloorPlan\<close> whatever the background rectangle is, and when no test matches the
  state is left as it was.
\<close>

theorem handleMouseDown_priority:
  "handleMouseDown props s (x, y)
     = spec_start (spec_first_match (spec_hit_tests props s x y)) (x, y) s
   \<and> (released s \<longrightarrow>
      gesture props (handleMouseDown props s (x, y)) = spec_first_match (spec_hit_tests props s x y))
   \<and> (released s \<and> floorPlan props \<noteq> None
        \<and> pos_x (floorPlanPosition s) + pos_width (floorPlanPosition s) - 20 < x
        \<and> x < pos_x (floorPlanPosition s) + pos_width (floorPlanPosition s)
        \<and> pos_y (floorPlanPosition s) + pos_height (floorPlanPosition s) - 20 < y
        \<and> y < pos_y (floorPlanPosition s) + pos_height (floorPlanPosition s) \<longrightarrow>
      gesture props (handleMouseDown props s (x, y)) = ResizingFloorPlan)
   \<and> (spec_first_match (spec_hit_tests props s x y) = Idle \<longrightarrow>
      handleMouseDown props s (x, y) = s)"
proof (intro conjI impI)
  show "handleMouseDown props s (x, y)
     = spec_start (spec_first_match (spec_hit_tests props s x y)) (x, y) s"
    by (rule handleMouseDown_spec_start)
next
  assume "released s"
  then show "gesture props (handleMouseDown props s (x, y))
      = spec_first_match (spec_hit_tests props s x y)"
    by (rule gesture_after_down)
next
  assume inside: "released s \<and> floorPlan props \<noteq> None
        \<and> pos_x (floorPlanPosition s) + pos_width (floorPlanPosition s) - 20 < x
        \<and> x < pos_x (floorPlanPosition s) + pos_width (floorPlanPosition s)
        \<and> pos_y (floorPlanPosition s) + pos_height (floorPlanPosition s) - 20 < y
        \<and> y < pos_y (floorPlanPosition s) + pos_height (floorPlanPosition s)"
  then have "spec_first_match (spec_hit_tests props s x y) = ResizingFloorPlan"
    by (simp add: strictly_inside)
  with inside gesture_after_down [of s props x y]
  show "gesture props (handleMouseDown props s (x, y)) = ResizingFloorPlan"
    by simp
next
  assume "spec_first_match (spec_hit_tests props s x y) = Idle"
  then show "handleMouseDown props s (x, y) = s"
    by (rule no_match_unchanged)
qed

theorem handleMouseDown_priority_witness:
  "released (initialStoryCanvas None None)
   \<and> isInBackground both_images (initialStoryCanvas None None) 1030 1040
   \<and> isInFloorPlan both_images (initialStoryCanvas None None) 1030 1040
   \<and> gesture both_images (handleMouseDown both_images (initialStoryCanvas None None) (1030, 1040))
       = ResizingFloorPlan
   \<and> spec_first_match (spec_hit_tests both_images (initialStoryCanvas None None) 500 50) = Idle
   \<and> handleMouseDown both_images (initialStoryCanvas None None) (500, 50) = initialStoryCanvas None None"
  using handleMouseDown_priority [of both_images "initialStoryCanvas None None" 1030 1040, THEN conjunct2]
    handleMouseDown_priority [of both_images "initialStoryCanvas None None" 500 50, THEN conjunct2]
  by (simp add: released_def initialStoryCanvas_def both_images_def isInBackground_def
      isInFloorPlan_def spec_first_match_hit_tests contains_def handle_box_def)

lemma handleMouseDown_positions:
  "floorPlanPosition (handleMouseDown props s p) = floorPlanPosition s"
  "backgroundPosition (handleMouseDown props s p) = backgroundPosition s"
  by (cases p; simp add: handleMouseDown_cases)+

lemma handleMouseMove_flags:
  "isDragging (handleMouseMove props s p) = isDragging s"
  "isResizing (handleMouseMove props s p) = isResizing s"
  "backgroundDragging (handleMouseMove props s p) = backgroundDragging s"
  "backgroundResizing (handleMouseMove props s p) = backgroundResizing s"
  "dragStart (handleMouseMove props s p) = dragStart s"
  by (simp_all add: handleMouseMove_def Let_def)

lemma gesture_flags_cong:
  assumes "isDragging s' = isDragging s" "isResizing s' = isResizing s"
    "backgroundDragging s' = backgroundDragging s" "backgroundResizing s' = backgroundResizing s"
  shows "gesture props s' = gesture props s"
  unfolding gesture_def assms ..

lemma gesture_handleMouseMove:
  "gesture props' (handleMouseMove props s p) = gesture props' s"
  by (rule gesture_flags_cong) (rule handleMouseMove_flags)+

subsection \<open>Drag bounds\<close>

lemma drag_floor_plan_bounds:
  assumes "gesture props s = DraggingFloorPlan"
    and "pos_width (floorPlanPosition s) \<le> 1080" and "pos_height (floorPlanPosition s) \<le> 1720"
  shows "floor_plan_bounds (floorPlanPosition (handleMouseMove props s (x, y)))"
    and "pos_width (floorPlanPosition (handleMouseMove props s (x, y))) = pos_width (floorPlanPosition s)"
    and "pos_height (floorPlanPosition (handleMouseMove props s (x, y))) = pos_height (floorPlanPosition s)"
proof -
  let ?w = "pos_width (floorPlanPosition s)" and ?h = "pos_height (floorPlanPosition s)"
  let ?x = "max 0 (min (1080 - ?w) (x - fst (dragStart s)))"
  let ?y = "max 200 (min (1720 - ?h) (y - snd (dragStart s)))"
  have moved: "floorPlanPosition (handleMouseMove props s (x, y))
      = (floorPlanPosition s)\<lparr> pos_x := ?x, pos_y := ?y \<rparr>"
    by (simp add: move_DraggingFloorPlan [OF assms(1)])
  from assms(2) have "0 \<le> ?x" "?x \<le> 1080 - ?w"
    by simp_all
  moreover from assms(3) have "200 \<le> ?y" "?y \<le> 1920 - ?h"
    by auto
  ultimately show "floor_plan_bounds (floorPlanPosition (handleMouseMove props s (x, y)))"
    unfolding moved floor_plan_bounds_def by simp
  show "pos_width (floorPlanPosition (handleMouseMove props s (x, y))) = ?w"
    and "pos_height (floorPlanPosition (handleMouseMove props s (x, y))) = ?h"
    unfolding moved by simp_all
qed

lemma drag_background_bounds:
  assumes "gesture props s = DraggingBackground"
    and "pos_height (backgroundPosition s) \<le> 1920"
  shows "background_bounds (backgroundPosition (handleMouseMove props s (x, y)))"
    and "pos_width (backgroundPosition (handleMouseMove props s (x, y))) = pos_width (backgroundPosition s)"
    and "pos_height (backgroundPosition (handleMouseMove props s (x, y))) = pos_height (backgroundPosition s)"
proof -
  let ?h = "pos_height (backgroundPosition s)"
  let ?x = "max (- 200) (min 1280 (x - fst (dragStart s)))"
  let ?y = "max 0 (min (1920 - ?h) (y - snd (dragStart s)))"
  have moved: "backgroundPosition (handleMouseMove props s (x, y))
      = (backgroundPosition s)\<lparr> pos_x := ?x, pos_y := ?y \<rparr>"
    by (simp add: move_DraggingBackground [OF assms(1)])
  have "- 200 \<le> ?x" "?x \<le> 1280"
    by simp_all
  moreover from assms(2) have "0 \<le> ?y" "?y \<le> 1920 - ?h"
    by simp_all
  ultimately show "background_bounds (backgroundPosition (handleMouseMove props s (x, y)))"
    unfolding moved background_bounds_def by simp
  show "pos_width (backgroundPosition (handleMouseMove props s (x, y))) = pos_width (backgroundPosition s)"
    and "pos_height (backgroundPosition (handleMouseMove props s (x, y))) = ?h"
    unfolding moved by simp_all
qed

text \<open>
  The layout predicate holds of the default layout and is kept by every event whose pointer
  position is on the canvas, so it holds throughout a session.
\<close>

lemma layout_ok_initial: "layout_ok (initialStoryCanvas None None)"
  by (simp add: layout_ok_def floor_plan_bounds_def background_bounds_def initialStoryCanvas_def)

lemma layout_ok_handleMouseDown: "layout_ok s \<Longrightarrow> layout_ok (handleMouseDown props s p)"
  by (simp add: layout_ok_def handleMouseDown_positions)

lemma layout_ok_handleMouseUp: "layout_ok s \<Longrightarrow> layout_ok (handleMouseUp s)"
  by (simp add: layout_ok_def handleMouseUp_def)

lemma layout_ok_sizes:
  assumes "layout_ok s"
  shows "pos_width (floorPlanPosition s) \<le> 1080" "pos_height (floorPlanPosition s) \<le> 1720"
    "pos_height (backgroundPosition s) \<le> 1920"
  using assms by (simp_all add: layout_ok_def floor_plan_bounds_def background_bounds_def)

lemma layout_ok_handleMouseMove:
  assumes "layout_ok s" "0 \<le> x" "x \<le> 1080" "0 \<le> y" "y \<le> 1920"
  shows "layout_ok (handleMouseMove props s (x, y))"
proof (cases "gesture props s")
  case Idle
  from move_Idle [OF this, of x y] obtain c where "handleMouseMove props s (x, y) = s\<lparr> cursor := c \<rparr>" ..
  with assms(1) show ?thesis
    by (simp add: layout_ok_def)
next
  case DraggingFloorPlan
  from drag_floor_plan_bounds(1) [OF this layout_ok_sizes(1,2) [OF assms(1)], of x y] assms(1)
  show ?thesis
    by (simp add: layout_ok_def move_DraggingFloorPlan [OF DraggingFloorPlan])
next
  case ResizingFloorPlan
  with assms show ?thesis
    by (auto simp add: layout_ok_def floor_plan_bounds_def move_ResizingFloorPlan)
next
  case DraggingBackground
  from drag_background_bounds(1,3) [OF this layout_ok_sizes(3) [OF assms(1)], of x y] assms(1)
  show ?thesis
    by (simp add: layout_ok_def move_DraggingBackground [OF DraggingBackground])
next
  case ResizingBackground
  with assms show ?thesis
    by (auto simp add: layout_ok_def background_bounds_def move_ResizingBackground)
qed

lemma layout_ok_step:
  assumes "layout_ok (snd c)" "on_canvas e"
  shows "layout_ok (snd (step c e))"
  using assms
  by (cases c; cases e)
    (simp_all add: layout_ok_handleMouseDown layout_ok_handleMouseUp layout_ok_handleMouseMove)

lemma layout_ok_run:
  assumes "layout_ok (snd c)" "list_all on_canvas evs"
  shows "layout_ok (snd (run c evs))"
  using assms unfolding run_def
  by (induction evs arbitrary: c) (simp_all add: layout_ok_step)

text \<open>
  C3. A pointer-move handled while a drag gesture is in force keeps the size of the dragged
  rectangle and leaves it within the layer's position bounds: the floor plan at
  x in [0, 1080 - width] and y in [200, 1920 - height], the background at x in [-200, 1280]
  and y in [0, 1920 - height]. This holds whenever the size of the rectangle leaves these
  intervals non-empty, and so for every drag move of a session that starts from a layout
  within the bounds, such as the default layout, and whose pointer positions are on the
  canvas.
\<close>

theorem drag_within_bounds:
  "(gesture props s = DraggingFloorPlan
      \<and> pos_width (floorPlanPosition s) \<le> 1080 \<and> pos_height (floorPlanPosition s) \<le> 1720 \<longrightarrow>
      floor_plan_bounds (floorPlanPosition (handleMouseMove props s (x, y)))
    \<and> pos_width (floorPlanPosition (handleMouseMove props s (x, y))) = pos_width (floorPlanPosition s)
    \<and> pos_height (floorPlanPosition (handleMouseMove props s (x, y))) = pos_height (floorPlanPosition s))
   \<and> (gesture props s = DraggingBackground \<and> pos_height (backgroundPosition s) \<le> 1920 \<longrightarrow>
      background_bounds (backgroundPosition (handleMouseMove props s (x, y)))
    \<and> pos_width (backgroundPosition (handleMouseMove props s (x, y))) = pos_width (backgroundPosition s)
    \<and> pos_height (backgroundPosition (handleMouseMove props s (x, y))) = pos_height (backgroundPosition s))
   \<and> (layout_ok s0 \<and> list_all on_canvas evs \<and> run (props0, s0) evs = (props, s) \<longrightarrow>
        (gesture props s = DraggingFloorPlan \<longrightarrow>
           floor_plan_bounds (floorPlanPosition (handleMouseMove props s (x, y))))
      \<and> (gesture props s = DraggingBackground \<longrightarrow>
           background_bounds (backgroundPosition (handleMouseMove props s (x, y)))))
   \<and> layout_ok (initialStoryCanvas None None)"
proof -
  have session: "(gesture props s = DraggingFloorPlan \<longrightarrow>
           floor_plan_bounds (floorPlanPosition (handleMouseMove props s (x, y))))
      \<and> (gesture props s = DraggingBackground \<longrightarrow>
           background_bounds (backgroundPosition (handleMouseMove props s (x, y))))"
    if "layout_ok s0 \<and> list_all on_canvas evs \<and> run (props0, s0) evs = (props, s)"
  proof -
    from that layout_ok_run [of "(props0, s0)" evs] have "layout_ok s"
      by simp
    from layout_ok_sizes [OF this] show ?thesis
      by (simp add: drag_floor_plan_bounds(1) drag_background_bounds(1))
  qed
  from session layout_ok_initial show ?thesis
    by (simp add: drag_floor_plan_bounds drag_background_bounds)
qed

theorem drag_within_bounds_witness:
  "gesture both_images ((initialStoryCanvas None None)\<lparr> isDragging := True, dragStart := (60, 50) \<rparr>)
     = DraggingFloorPlan
   \<and> pos_width (floorPlanPosition (initialStoryCanvas None None)) \<le> 1080
   \<and> pos_height (floorPlanPosition (initialStoryCanvas None None)) \<le> 1720
   \<and> floorPlanPosition (handleMouseMove both_images
         ((initialStoryCanvas None None)\<lparr> isDragging := True, dragStart := (60, 50) \<rparr>) (1080, 1900))
       = \<lparr> pos_x = 480, pos_y = 1320, pos_width = 600, pos_height = 400 \<rparr>
   \<and> floor_plan_bounds \<lparr> pos_x = 480, pos_y = 1320, pos_width = 600, pos_height = 400 \<rparr>
   \<and> gesture both_images ((initialStoryCanvas None None)\<lparr> backgroundDragging := True, dragStart := (100, 50) \<rparr>)
     = DraggingBackground
   \<and> pos_height (backgroundPosition (initialStoryCanvas None None)) \<le> 1920
   \<and> backgroundPosition (handleMouseMove both_images
         ((initialStoryCanvas None None)\<lparr> backgroundDragging := True, dragStart := (100, 50) \<rparr>) (0, 1900))
       = \<lparr> pos_x = - 100, pos_y = 570, pos_width = 1080, pos_height = 1350 \<rparr>
   \<and> background_bounds \<lparr> pos_x = - 100, pos_y = 570, pos_width = 1080, pos_height = 1350 \<rparr>
   \<and> layout_ok (initialStoryCanvas None None)
   \<and> list_all on_canvas [MouseDown 500 700]
   \<and> run (both_images, initialStoryCanvas None None) [MouseDown 500 700]
       = (both_images, (initialStoryCanvas None None)\<lparr> isDragging := True, dragStart := (60, 50) \<rparr>)"
proof -
  let ?s = "(initialStoryCanvas None None)\<lparr> isDragging := True, dragStart := (60, 50) \<rparr>"
  let ?t = "(initialStoryCanvas None None)\<lparr> backgroundDragging := True, dragStart := (100, 50) \<rparr>"
  have session: "list_all on_canvas [MouseDown 500 700]"
    "run (both_images, initialStoryCanvas None None) [MouseDown 500 700] = (both_images, ?s)"
    by (simp_all add: run_def both_images_def initialStoryCanvas_def handleMouseDown_def Let_def
        isInResizeHandle_def isInBackgroundResizeHandle_def isInFloorPlan_def)
  have moves: "floorPlanPosition (handleMouseMove both_images ?s (1080, 1900))
       = \<lparr> pos_x = 480, pos_y = 1320, pos_width = 600, pos_height = 400 \<rparr>"
    "backgroundPosition (handleMouseMove both_images ?t (0, 1900))
       = \<lparr> pos_x = - 100, pos_y = 570, pos_width = 1080, pos_height = 1350 \<rparr>"
    by (simp_all add: both_images_def initialStoryCanvas_def handleMouseMove_def Let_def)
  have gestures: "gesture both_images ?s = DraggingFloorPlan" "gesture both_images ?t = DraggingBackground"
    by (simp_all add: gesture_def both_images_def initialStoryCanvas_def)
  have sizes: "pos_width (floorPlanPosition (initialStoryCanvas None None)) \<le> 1080"
    "pos_height (floorPlanPosition (initialStoryCanvas None None)) \<le> 1720"
    "pos_height (backgroundPosition (initialStoryCanvas None None)) \<le> 1920"
    by (simp_all add: initialStoryCanvas_def)
  from drag_within_bounds [of both_images ?s 1080 1900 "initialStoryCanvas None None"
      "[MouseDown 500 700]" both_images]
    drag_within_bounds [of both_images ?t 0 1900 "initialStoryCanvas None None" "[]" both_images]
    session moves gestures sizes
  show ?thesis
    by simp
qed

subsection \<open>Resize bounds\<close>

lemma session_ok_initial: "session_ok (initialStoryCanvas None None)"
  by (simp add: session_ok_def layout_ok_def floor_plan_bounds_def background_bounds_def
      initialStoryCanvas_def)

lemma session_ok_handleMouseUp: "session_ok s \<Longrightarrow> session_ok (handleMouseUp s)"
  by (simp add: session_ok_def layout_ok_def handleMouseUp_def)

lemma session_ok_handleMouseDown:
  assumes "session_ok s" "0 \<le> x" "x \<le> 1080" "0 \<le> y" "y \<le> 1920"
  shows "session_ok (handleMouseDown props s (x, y))"
proof -
  let ?bg = "backgroundPosition s"
  have grabbed: "pos_x ?bg \<le> 700" if "contains (handle_box ?bg) x y"
    using that assms(1,3) by (simp add: contains_def handle_box_def session_ok_def)
  from assms(1) have kept: "layout_ok s" "400 \<le> pos_width ?bg"
    "75 \<le> pos_height (floorPlanPosition s)" "pos_y (floorPlanPosition s) \<le> 1720"
    "backgroundResizing s \<and> \<not> backgroundDragging s \<longrightarrow> pos_x ?bg \<le> 700"
    by (simp_all add: session_ok_def)
  show ?thesis
    unfolding handleMouseDown_cases using kept grabbed
    by (simp add: session_ok_def layout_ok_def)
qed

lemma resize_floor_plan_moved:
  assumes "gesture props s = ResizingFloorPlan"
  shows "floorPlanPosition (handleMouseMove props s (x, y))
      = (floorPlanPosition s)
          \<lparr> pos_width := min (max 100 (x - pos_x (floorPlanPosition s))) (1070 - pos_x (floorPlanPosition s)),
            pos_height := min (max 75 (y - pos_y (floorPlanPosition s))) (1910 - pos_y (floorPlanPosition s)) \<rparr>"
    and "backgroundPosition (handleMouseMove props s (x, y)) = backgroundPosition s"
  by (simp_all add: move_ResizingFloorPlan [OF assms])

lemma resize_background_moved:
  assumes "gesture props s = ResizingBackground"
  shows "backgroundPosition (handleMouseMove props s (x, y))
      = (backgroundPosition s)
          \<lparr> pos_width := min (max 400 (x - pos_x (backgroundPosition s))) (1480 - pos_x (backgroundPosition s)),
            pos_height := min (max 300 (y - pos_y (backgroundPosition s))) (2220 - pos_y (backgroundPosition s)) \<rparr>"
    and "floorPlanPosition (handleMouseMove props s (x, y)) = floorPlanPosition s"
  by (simp_all add: move_ResizingBackground [OF assms])

lemma resizing_background_origin:
  assumes "session_ok s" "gesture props s = ResizingBackground"
  shows "pos_x (backgroundPosition s) \<le> 700" "0 \<le> pos_y (backgroundPosition s)"
    "pos_y (backgroundPosition s) \<le> 1620"
proof -
  from assms(2) have "backgroundResizing s \<and> \<not> backgroundDragging s"
    using gesture_ResizingBackground [of props s] by blast
  with assms(1) show "pos_x (backgroundPosition s) \<le> 700"
    by (simp add: session_ok_def)
  from assms(1) show "0 \<le> pos_y (backgroundPosition s)" "pos_y (backgroundPosition s) \<le> 1620"
    by (simp_all add: session_ok_def layout_ok_def background_bounds_def)
qed

text \<open>
  On the canvas the caps 1480 and 2220 of the background never bind: the new size is the
  pointer's distance from the origin, or the minimum.
\<close>

lemma resize_background_on_canvas:
  assumes "session_ok s" "gesture props s = ResizingBackground" "x \<le> 1080" "y \<le> 1920"
  shows "pos_width (backgroundPosition (handleMouseMove props s (x, y)))
      = max 400 (x - pos_x (backgroundPosition s))"
    and "pos_height (backgroundPosition (handleMouseMove props s (x, y)))
      = max 300 (y - pos_y (backgroundPosition s))"
  using resizing_background_origin [OF assms(1,2)] assms(3,4)
  by (simp_all add: resize_background_moved [OF assms(2)] min_def max_def)

lemma session_ok_handleMouseMove:
  assumes "session_ok s" "0 \<le> x" "x \<le> 1080" "0 \<le> y" "y \<le> 1920"
  shows "session_ok (handleMouseMove props s (x, y))"
proof -
  from assms(1) have l: "layout_ok s"
    by (simp add: session_ok_def)
  note layout = layout_ok_handleMouseMove [OF l assms(2-5), of props]
  show ?thesis
  proof (cases "gesture props s")
    case Idle
    from move_Idle [OF this, of x y] obtain c where "handleMouseMove props s (x, y) = s\<lparr> cursor := c \<rparr>" ..
    with assms(1) show ?thesis
      by (simp add: session_ok_def layout_ok_def)
  next
    case DraggingFloorPlan
    with assms(1) layout show ?thesis
      by (auto simp add: session_ok_def move_DraggingFloorPlan)
  next
    case ResizingFloorPlan
    with assms(1) layout show ?thesis
      by (auto simp add: session_ok_def move_ResizingFloorPlan)
  next
    case DraggingBackground
    then have "backgroundDragging s"
      using gesture_DraggingBackground [of props s] by blast
    with assms(1) layout DraggingBackground show ?thesis
      by (simp add: session_ok_def move_DraggingBackground)
  next
    case ResizingBackground
    from resize_background_on_canvas [OF assms(1) this assms(3,5)] assms(1) layout
    show ?thesis
      by (simp add: session_ok_def handleMouseMove_flags resize_background_moved [OF ResizingBackground])
  qed
qed

lemma session_ok_step:
  assumes "session_ok (snd c)" "on_canvas e"
  shows "session_ok (snd (step c e))"
  using assms
  by (cases c; cases e)
    (simp_all add: session_ok_handleMouseDown session_ok_handleMouseUp session_ok_handleMouseMove)

lemma session_ok_run:
  assumes "session_ok (snd c)" "list_all on_canvas evs"
  shows "session_ok (snd (run c evs))"
  using assms unfolding run_def
  by (induction evs arbitrary: c) (simp_all add: session_ok_step)

text \<open>
  C4, as the code has it by design. In a session that starts from the default layout (or any
  state that satisfies \<^const>\<open>session_ok\<close>) and whose pointer positions are on the canvas, a
  pointer-move handled while a resize gesture is in force leaves the origin \<open>(x, y)\<close> of the
  resized rectangle unchanged, and:
  \<^item> the background gets the width \<open>max 400 (pointer x - x)\<close> and the height
    \<open>max 300 (pointer y - y)\<close>, so it is at least 400 by 300 and \<open>y + height \<le> 1920\<close>; its right
    edge stays on the canvas, \<open>x + width \<le> 1080\<close>, when \<open>x \<le> 680\<close>, and otherwise the minimum
    width has precedence over the canvas edge: the width is 400 and \<open>x + width \<le> 1100\<close>;
  \<^item> the floor plan gets the height \<open>min (max 75 (pointer y - y)) (1910 - y)\<close>, so its height
    is at least 75 and \<open>y + height \<le> 1910\<close>, inside the canvas edge; when \<open>x \<le> 970\<close> it gets the
    width \<open>min (max 100 (pointer x - x)) (1070 - x)\<close>, so its width is at least 100 and
    \<open>x + width \<le> 1070\<close>, inside the canvas edge.
\<close>

theorem resize_bounds:
  assumes "session_ok s0" and "list_all on_canvas evs" and "run (props0, s0) evs = (props, s)"
    and "0 \<le> x" and "x \<le> 1080" and "0 \<le> y" and "y \<le> 1920"
  defines "fp \<equiv> floorPlanPosition s" and "fp' \<equiv> floorPlanPosition (handleMouseMove props s (x, y))"
    and "bg \<equiv> backgroundPosition s" and "bg' \<equiv> backgroundPosition (handleMouseMove props s (x, y))"
  shows "(gesture props s = ResizingFloorPlan \<longrightarrow>
            pos_x fp' = pos_x fp \<and> pos_y fp' = pos_y fp
          \<and> pos_height fp' = min (max 75 (y - pos_y fp)) (1910 - pos_y fp)
          \<and> 75 \<le> pos_height fp' \<and> pos_y fp + pos_height fp' \<le> 1910
          \<and> (pos_x fp \<le> 970 \<longrightarrow>
                pos_width fp' = min (max 100 (x - pos_x fp)) (1070 - pos_x fp)
              \<and> 100 \<le> pos_width fp' \<and> pos_x fp + pos_width fp' \<le> 1070))
       \<and> (gesture props s = ResizingBackground \<longrightarrow>
            pos_x bg' = pos_x bg \<and> pos_y bg' = pos_y bg
          \<and> pos_width bg' = max 400 (x - pos_x bg) \<and> pos_height bg' = max 300 (y - pos_y bg)
          \<and> 400 \<le> pos_width bg' \<and> 300 \<le> pos_height bg'
          \<and> pos_y bg + pos_height bg' \<le> 1920
          \<and> pos_x bg + pos_width bg' \<le> 1100
          \<and> (pos_x bg \<le> 680 \<longrightarrow> pos_x bg + pos_width bg' \<le> 1080)
          \<and> (680 < pos_x bg \<longrightarrow> pos_width bg' = 400))
       \<and> session_ok (initialStoryCanvas None None)"
proof -
  from session_ok_run [of "(props0, s0)" evs] assms(1-3) have ok: "session_ok s"
    by simp
  have floor_plan: "pos_x fp' = pos_x fp \<and> pos_y fp' = pos_y fp
          \<and> pos_height fp' = min (max 75 (y - pos_y fp)) (1910 - pos_y fp)
          \<and> 75 \<le> pos_height fp' \<and> pos_y fp + pos_height fp' \<le> 1910
          \<and> (pos_x fp \<le> 970 \<longrightarrow>
                pos_width fp' = min (max 100 (x - pos_x fp)) (1070 - pos_x fp)
              \<and> 100 \<le> pos_width fp' \<and> pos_x fp + pos_width fp' \<le> 1070)"
    if g: "gesture props s = ResizingFloorPlan"
  proof -
    from ok have "pos_y fp \<le> 1720"
      by (simp add: session_ok_def fp_def)
    then show ?thesis
      unfolding fp'_def fp_def resize_floor_plan_moved(1) [OF g] by auto
  qed
  have background: "pos_x bg' = pos_x bg \<and> pos_y bg' = pos_y bg
          \<and> pos_width bg' = max 400 (x - pos_x bg) \<and> pos_height bg' = max 300 (y - pos_y bg)
          \<and> 400 \<le> pos_width bg' \<and> 300 \<le> pos_height bg'
          \<and> pos_y bg + pos_height bg' \<le> 1920
          \<and> pos_x bg + pos_width bg' \<le> 1100
          \<and> (pos_x bg \<le> 680 \<longrightarrow> pos_x bg + pos_width bg' \<le> 1080)
          \<and> (680 < pos_x bg \<longrightarrow> pos_width bg' = 400)"
    if g: "gesture props s = ResizingBackground"
  proof -
    note size = resize_background_on_canvas [OF ok g assms(5,7), folded bg_def bg'_def]
    note origin = resizing_background_origin [OF ok g, folded bg_def]
    have same: "pos_x bg' = pos_x bg" "pos_y bg' = pos_y bg"
      unfolding bg'_def bg_def resize_background_moved(1) [OF g] by simp_all
    from size origin assms(5,7) same show ?thesis
      by auto
  qed
  from floor_plan background session_ok_initial show ?thesis
    by blast
qed

theorem resize_bounds_witness:
  "session_ok (initialStoryCanvas None None)
   \<and> list_all on_canvas [MouseDown 1070 1490]
   \<and> run (both_images, initialStoryCanvas None None) [MouseDown 1070 1490]
       = (both_images,
          (initialStoryCanvas None None)\<lparr> backgroundResizing := True, dragStart := (1070, 1490) \<rparr>)
   \<and> gesture both_images
        ((initialStoryCanvas None None)\<lparr> backgroundResizing := True, dragStart := (1070, 1490) \<rparr>)
       = ResizingBackground
   \<and> backgroundPosition (handleMouseMove both_images
         ((initialStoryCanvas None None)\<lparr> backgroundResizing := True, dragStart := (1070, 1490) \<rparr>)
         (200, 1920))
       = \<lparr> pos_x = 0, pos_y = 150, pos_width = 400, pos_height = 1770 \<rparr>
   \<and> list_all on_canvas [MouseDown 1030 1040]
   \<and> run (both_images, initialStoryCanvas None None) [MouseDown 1030 1040]
       = (both_images,
          (initialStoryCanvas None None)\<lparr> isResizing := True, dragStart := (1030, 1040) \<rparr>)
   \<and> gesture both_images
        ((initialStoryCanvas None None)\<lparr> isResizing := True, dragStart := (1030, 1040) \<rparr>)
       = ResizingFloorPlan
   \<and> pos_x (floorPlanPosition
        ((initialStoryCanvas None None)\<lparr> isResizing := True, dragStart := (1030, 1040) \<rparr>)) \<le> 970
   \<and> floorPlanPosition (handleMouseMove both_images
         ((initialStoryCanvas None None)\<lparr> isResizing := True, dragStart := (1030, 1040) \<rparr>)
         (1080, 700))
       = \<lparr> pos_x = 440, pos_y = 650, pos_width = 630, pos_height = 75 \<rparr>"
proof -
  let ?b = "(initialStoryCanvas None None)\<lparr> backgroundResizing := True, dragStart := (1070, 1490) \<rparr>"
  let ?f = "(initialStoryCanvas None None)\<lparr> isResizing := True, dragStart := (1030, 1040) \<rparr>"
  have sessions: "list_all on_canvas [MouseDown 1070 1490]"
    "run (both_images, initialStoryCanvas None None) [MouseDown 1070 1490] = (both_images, ?b)"
    "list_all on_canvas [MouseDown 1030 1040]"
    "run (both_images, initialStoryCanvas None None) [MouseDown 1030 1040] = (both_images, ?f)"
    by (simp_all add: run_def both_images_def initialStoryCanvas_def handleMouseDown_def Let_def
        isInResizeHandle_def isInBackgroundResizeHandle_def)
  have gestures: "gesture both_images ?b = ResizingBackground" "gesture both_images ?f = ResizingFloorPlan"
    by (simp_all add: gesture_def both_images_def initialStoryCanvas_def)
  have origin: "pos_x (floorPlanPosition ?f) \<le> 970"
    by (simp add: initialStoryCanvas_def)
  have bounds: "(0 :: real) \<le> 200" "(200 :: real) \<le> 1080" "(0 :: real) \<le> 1920" "(1920 :: real) \<le> 1920"
    "(0 :: real) \<le> 1080" "(1080 :: real) \<le> 1080" "(0 :: real) \<le> 700" "(700 :: real) \<le> 1920"
    by simp_all
  have ok: "session_ok (initialStoryCanvas None None)"
    by (simp add: session_ok_def layout_ok_def floor_plan_bounds_def background_bounds_def
        initialStoryCanvas_def)
  from resize_bounds [OF ok sessions(1,2) bounds(1-4)] gestures(1)
  have "pos_width (backgroundPosition (handleMouseMove both_images ?b (200, 1920)))
          = max 400 (200 - pos_x (backgroundPosition ?b))
      \<and> pos_height (backgroundPosition (handleMouseMove both_images ?b (200, 1920)))
          = max 300 (1920 - pos_y (backgroundPosition ?b))
      \<and> pos_x (backgroundPosition (handleMouseMove both_images ?b (200, 1920)))
          = pos_x (backgroundPosition ?b)
      \<and> pos_y (backgroundPosition (handleMouseMove both_images ?b (200, 1920)))
          = pos_y (backgroundPosition ?b)"
    by simp
  then have background: "backgroundPosition (handleMouseMove both_images ?b (200, 1920))
       = \<lparr> pos_x = 0, pos_y = 150, pos_width = 400, pos_height = 1770 \<rparr>"
    by (simp add: initialStoryCanvas_def Position.equality)
  from resize_bounds [OF ok sessions(3,4) bounds(5-8)] gestures(2) origin
  have "pos_width (floorPlanPosition (handleMouseMove both_images ?f (1080, 700)))
          = min (max 100 (1080 - pos_x (floorPlanPosition ?f))) (1070 - pos_x (floorPlanPosition ?f))
      \<and> pos_height (floorPlanPosition (handleMouseMove both_images ?f (1080, 700)))
          = min (max 75 (700 - pos_y (floorPlanPosition ?f))) (1910 - pos_y (floorPlanPosition ?f))
      \<and> pos_x (floorPlanPosition (handleMouseMove both_images ?f (1080, 700)))
          = pos_x (floorPlanPosition ?f)
      \<and> pos_y (floorPlanPosition (handleMouseMove both_images ?f (1080, 700)))
          = pos_y (floorPlanPosition ?f)"
    by simp
  then have floor_plan: "floorPlanPosition (handleMouseMove both_images ?f (1080, 700))
       = \<lparr> pos_x = 440, pos_y = 650, pos_width = 630, pos_height = 75 \<rparr>"
    by (simp add: initialStoryCanvas_def Position.equality)
  from ok sessions gestures origin background floor_plan show ?thesis
    by simp
qed

text \<open>
  The upper bound x + width \<le> 1080 of the specification fails for the background at the last event of
  \<^const>\<open>resize_session\<close>: the gesture is a background resize, every event is on the canvas,
  and the resized rectangle ends at x + width = 1100.
\<close>

theorem resize_canvas_edge_counterexample:
  "list_all on_canvas resize_session
   \<and> gesture (fst (run (both_images, initialStoryCanvas None None) (butlast resize_session)))
        (snd (run (both_images, initialStoryCanvas None None) (butlast resize_session)))
       = ResizingBackground
   \<and> backgroundPosition (snd (run (both_images, initialStoryCanvas None None) resize_session))
       = \<lparr> pos_x = 700, pos_y = 150, pos_width = 400, pos_height = 300 \<rparr>
   \<and> \<not> (pos_x (backgroundPosition (snd (run (both_images, initialStoryCanvas None None) resize_session)))
          + pos_width (backgroundPosition (snd (run (both_images, initialStoryCanvas None None) resize_session)))
          \<le> 1080)"
  by (simp add: resize_session_def run_def both_images_def initialStoryCanvas_def
      handleMouseDown_def handleMouseMove_def handleMouseUp_def gesture_def Let_def
      isInResizeHandle_def isInBackgroundResizeHandle_def isInFloorPlan_def isInBackground_def)

text \<open>
  Where the origin leaves no room under the cap, the cap wins over the minimum size: at the
  last event of \<^const>\<open>narrow_session\<close> the floor plan, dragged to x = 980, is resized to the
  width 90.
\<close>

lemma resize_below_minimum:
  "list_all on_canvas narrow_session
   \<and> gesture (fst (run (both_images, initialStoryCanvas None None) (butlast narrow_session)))
        (snd (run (both_images, initialStoryCanvas None None) (butlast narrow_session)))
       = ResizingFloorPlan
   \<and> floorPlanPosition (snd (run (both_images, initialStoryCanvas None None) narrow_session))
       = \<lparr> pos_x = 980, pos_y = 650, pos_width = 90, pos_height = 75 \<rparr>"
  by (simp add: narrow_session_def run_def both_images_def initialStoryCanvas_def
      handleMouseDown_def handleMouseMove_def handleMouseUp_def gesture_def Let_def
      isInResizeHandle_def isInBackgroundResizeHandle_def isInFloorPlan_def isInBackground_def)

subsection \<open>A gesture whose image is removed\<close>

text \<open>
  C7, as the code has it. \<^const>\<open>handleMouseMove\<close> is a total function (nothing throws), it
  never writes the rectangle of a layer whose image is absent, and it never writes a gesture
  flag or the grab offset. So after the image of the layer being dragged or resized is
  removed, the next pointer-move leaves that rectangle alone and, when no flag of the other
  layer is set, is handled as a hover; the flag stays set until pointer-up or pointer-leave,
  and the gesture is in force again as soon as an image is attached.
\<close>

theorem orphaned_gesture_suspended:
  "(floorPlan props = None \<longrightarrow>
      floorPlanPosition (handleMouseMove props s (x, y)) = floorPlanPosition s)
   \<and> (backgroundImage props = None \<longrightarrow>
      backgroundPosition (handleMouseMove props s (x, y)) = backgroundPosition s)
   \<and> isDragging (handleMouseMove props s (x, y)) = isDragging s
   \<and> isResizing (handleMouseMove props s (x, y)) = isResizing s
   \<and> backgroundDragging (handleMouseMove props s (x, y)) = backgroundDragging s
   \<and> backgroundResizing (handleMouseMove props s (x, y)) = backgroundResizing s
   \<and> dragStart (handleMouseMove props s (x, y)) = dragStart s
   \<and> (floorPlan props = None \<and> \<not> backgroundDragging s \<and> \<not> backgroundResizing s \<longrightarrow>
      gesture props (handleMouseMove props s (x, y)) = Idle
      \<and> backgroundPosition (handleMouseMove props s (x, y)) = backgroundPosition s)
   \<and> (backgroundImage props = None \<and> \<not> isDragging s \<and> \<not> isResizing s \<longrightarrow>
      gesture props (handleMouseMove props s (x, y)) = Idle
      \<and> floorPlanPosition (handleMouseMove props s (x, y)) = floorPlanPosition s)
   \<and> gesture props' (handleMouseMove props s (x, y)) = gesture props' s
   \<and> released (handleMouseUp (handleMouseMove props s (x, y)))"
proof -
  have fp: "floorPlanPosition (handleMouseMove props s (x, y)) = floorPlanPosition s"
    if "floorPlan props = None"
    using that by (simp add: handleMouseMove_def Let_def)
  have bg: "backgroundPosition (handleMouseMove props s (x, y)) = backgroundPosition s"
    if "backgroundImage props = None"
    using that by (simp add: handleMouseMove_def Let_def)
  have idle_fp: "gesture props (handleMouseMove props s (x, y)) = Idle
      \<and> backgroundPosition (handleMouseMove props s (x, y)) = backgroundPosition s"
    if "floorPlan props = None \<and> \<not> backgroundDragging s \<and> \<not> backgroundResizing s"
    using that by (simp add: handleMouseMove_def gesture_def Let_def)
  have idle_bg: "gesture props (handleMouseMove props s (x, y)) = Idle
      \<and> floorPlanPosition (handleMouseMove props s (x, y)) = floorPlanPosition s"
    if "backgroundImage props = None \<and> \<not> isDragging s \<and> \<not> isResizing s"
    using that by (simp add: handleMouseMove_def gesture_def Let_def)
  have up: "released (handleMouseUp (handleMouseMove props s (x, y)))"
    by (simp add: released_def handleMouseUp_def)
  from fp bg idle_fp idle_bg up show ?thesis
    by (simp add: handleMouseMove_flags gesture_handleMouseMove)
qed

theorem orphaned_gesture_suspended_witness:
  "floorPlan background_only = None
   \<and> backgroundImage (background_only\<lparr> backgroundImage := None \<rparr>) = None
   \<and> isDragging (handleMouseDown both_images (initialStoryCanvas None None) (500, 700))
   \<and> \<not> backgroundDragging (handleMouseDown both_images (initialStoryCanvas None None) (500, 700))
   \<and> \<not> backgroundResizing (handleMouseDown both_images (initialStoryCanvas None None) (500, 700))
   \<and> gesture background_only
        (handleMouseMove background_only
          (handleMouseDown both_images (initialStoryCanvas None None) (500, 700)) (600, 800)) = Idle
   \<and> floorPlanPosition
        (handleMouseMove background_only
          (handleMouseDown both_images (initialStoryCanvas None None) (500, 700)) (600, 800))
       = \<lparr> pos_x = 440, pos_y = 650, pos_width = 600, pos_height = 400 \<rparr>
   \<and> isDragging
        (handleMouseMove background_only
          (handleMouseDown both_images (initialStoryCanvas None None) (500, 700)) (600, 800))
   \<and> \<not> isDragging (initialStoryCanvas None None)
   \<and> \<not> isResizing (initialStoryCanvas None None)
   \<and> gesture (background_only\<lparr> backgroundImage := None \<rparr>)
        (handleMouseMove (background_only\<lparr> backgroundImage := None \<rparr>)
          (initialStoryCanvas None None) (600, 800)) = Idle"
  using orphaned_gesture_suspended [of background_only
      "handleMouseDown both_images (initialStoryCanvas None None) (500, 700)" 600 800 background_only]
    orphaned_gesture_suspended [of "background_only\<lparr> backgroundImage := None \<rparr>"
      "initialStoryCanvas None None" 600 800 background_only]
  by (simp add: background_only_def both_images_def initialStoryCanvas_def handleMouseDown_def
      Let_def isInResizeHandle_def isInBackgroundResizeHandle_def isInFloorPlan_def)

text \<open>
  The transition to \<open>Idle\<close> of the specification does not take place: after
  \<^const>\<open>orphaned_drag\<close> the drag flag is still set, and once the parent attaches a floor plan again the next
  pointer-move of the same gesture moves the floor-plan rectangle.
\<close>

theorem orphaned_gesture_counterexample:
  "isDragging (snd (run (both_images, initialStoryCanvas None None) orphaned_drag))
   \<and> \<not> released (snd (run (both_images, initialStoryCanvas None None) orphaned_drag))
   \<and> floorPlanPosition (snd (run (both_images, initialStoryCanvas None None) orphaned_drag))
       = \<lparr> pos_x = 440, pos_y = 650, pos_width = 600, pos_height = 400 \<rparr>
   \<and> floorPlanPosition (snd (run (both_images, initialStoryCanvas None None)
         (orphaned_drag @ [SetProps both_images, MouseMove 600 800])))
       = \<lparr> pos_x = 480, pos_y = 750, pos_width = 600, pos_height = 400 \<rparr>"
  by (simp add: orphaned_drag_def run_def background_only_def both_images_def initialStoryCanvas_def
      handleMouseDown_def handleMouseMove_def released_def Let_def
      isInResizeHandle_def isInBackgroundResizeHandle_def isInFloorPlan_def isInBackground_def)

subsection \<open>Dragging the background there and back\<close>




subsection \<open>The dark overlay\<close>

text \<open>
  C1, as the code has it. When the background image decodes, both variants of the compositor
  draw the bitmap first, into the given rectangle or else into the default one. The
  eight-parameter variant then fills the 30 percent black overlay exactly once, over exactly
  that rectangle; it fills it nowhere else, unless the caller passes the overlay colour itself
  as \<^verbatim>\<open>backgroundColor\<close> for the initial fill. The six-parameter variant fills the overlay
  once over the whole canvas, whatever the rectangle of the bitmap is.
\<close>

theorem scrim_over_background:
  assumes "loadImage file = Some img"
  shows "take 1 (images (paints (drawStoryCanvas True (Some file) floorPlan' floorPlanPosition'
             backgroundPosition' backgroundColor showEditingHandles)))
           = [(img, backgroundRect img backgroundPosition')]
       \<and> scrim_rects (after_first_image (paints (drawStoryCanvas True (Some file) floorPlan'
             floorPlanPosition' backgroundPosition' backgroundColor showEditingHandles)))
           = [backgroundRect img backgroundPosition']
       \<and> (backgroundColor \<noteq> Some ''rgba(0, 0, 0, 0.3)'' \<longrightarrow>
            scrim_rects (paints (drawStoryCanvas True (Some file) floorPlan' floorPlanPosition'
              backgroundPosition' backgroundColor showEditingHandles))
            = [backgroundRect img backgroundPosition'])
       \<and> take 1 (images (paints (drawStoryCanvas_lib True (Some file) floorPlan' floorPlanPosition'
             backgroundPosition')))
           = [(img, backgroundRect img backgroundPosition')]
       \<and> scrim_rects (paints (drawStoryCanvas_lib True (Some file) floorPlan' floorPlanPosition'
             backgroundPosition'))
           = [\<lparr> pos_x = 0, pos_y = 0, pos_width = CANVAS_WIDTH, pos_height = CANVAS_HEIGHT \<rparr>]"
proof -
  have first: "take 1 (images (paints (drawStoryCanvas True (Some file) floorPlan' floorPlanPosition'
             backgroundPosition' backgroundColor showEditingHandles)))
           = [(img, backgroundRect img backgroundPosition')]"
    using assms
    by (simp add: paints_def drawStoryCanvas_def draw_fill_def draw_background_def Let_def
        split: option.splits)
  have after: "scrim_rects (after_first_image (paints (drawStoryCanvas True (Some file) floorPlan'
             floorPlanPosition' backgroundPosition' backgroundColor showEditingHandles)))
           = [backgroundRect img backgroundPosition']"
    using assms
    by (simp add: paints_def drawStoryCanvas_def draw_fill_def draw_background_def
        draw_floor_plan_def draw_card_def draw_bottom_def draw_bank_logo_def resize_icon_def
        scrim_def Let_def split: option.splits)
  have whole: "scrim_rects (paints (drawStoryCanvas True (Some file) floorPlan' floorPlanPosition'
              backgroundPosition' backgroundColor showEditingHandles))
            = [backgroundRect img backgroundPosition']"
    if "backgroundColor \<noteq> Some ''rgba(0, 0, 0, 0.3)''"
    using assms that
    by (simp add: paints_def drawStoryCanvas_def draw_fill_def draw_background_def
        draw_floor_plan_def draw_card_def draw_bottom_def draw_bank_logo_def resize_icon_def
        scrim_def Let_def split: option.splits)
  have first_lib: "take 1 (images (paints (drawStoryCanvas_lib True (Some file) floorPlan'
             floorPlanPosition' backgroundPosition')))
           = [(img, backgroundRect img backgroundPosition')]"
    using assms
    by (simp add: paints_def drawStoryCanvas_lib_def draw_background_lib_def Let_def)
  have whole_lib: "scrim_rects (paints (drawStoryCanvas_lib True (Some file) floorPlan'
             floorPlanPosition' backgroundPosition'))
           = [\<lparr> pos_x = 0, pos_y = 0, pos_width = CANVAS_WIDTH, pos_height = CANVAS_HEIGHT \<rparr>]"
    using assms
    by (simp add: paints_def drawStoryCanvas_lib_def draw_background_lib_def
        draw_floor_plan_lib_def draw_card_def draw_bottom_lib_def draw_bank_logo_def
        scrim_def Let_def split: option.splits)
  from first after whole first_lib whole_lib show ?thesis
    by blast
qed

theorem scrim_over_background_witness:
  "loadImage (File (Some \<lparr> img_width = 1920, img_height = 1080 \<rparr>))
     = Some \<lparr> img_width = 1920, img_height = 1080 \<rparr>
   \<and> (None :: string option) \<noteq> Some ''rgba(0, 0, 0, 0.3)''
   \<and> scrim_rects (paints (drawStoryCanvas True
         (Some (File (Some \<lparr> img_width = 1920, img_height = 1080 \<rparr>))) None None
         (Some \<lparr> pos_x = 0, pos_y = 150, pos_width = 1080, pos_height = 1350 \<rparr>) None True))
       = [\<lparr> pos_x = 0, pos_y = 150, pos_width = 1080, pos_height = 1350 \<rparr>]
   \<and> scrim_rects (paints (drawStoryCanvas_lib True
         (Some (File (Some \<lparr> img_width = 1920, img_height = 1080 \<rparr>))) None None
         (Some \<lparr> pos_x = 0, pos_y = 150, pos_width = 1080, pos_height = 1350 \<rparr>)))
       = [\<lparr> pos_x = 0, pos_y = 0, pos_width = 1080, pos_height = 1920 \<rparr>]"
  using scrim_over_background [of "File (Some \<lparr> img_width = 1920, img_height = 1080 \<rparr>)"
      "\<lparr> img_width = 1920, img_height = 1080 \<rparr>" None None
      "Some \<lparr> pos_x = 0, pos_y = 150, pos_width = 1080, pos_height = 1350 \<rparr>" None True]
  by (simp add: backgroundRect_def)

text \<open>
  The specification's confined overlay fails on the six-parameter variant: with the background bitmap drawn into the
  rectangle at (0, 150) of size 1080 by 1350, the overlay is not filled over that rectangle.
\<close>

theorem scrim_whole_canvas_counterexample:
  "images (paints (drawStoryCanvas_lib True
       (Some (File (Some \<lparr> img_width = 1920, img_height = 1080 \<rparr>))) None None
       (Some \<lparr> pos_x = 0, pos_y = 150, pos_width = 1080, pos_height = 1350 \<rparr>)))
     = [(\<lparr> img_width = 1920, img_height = 1080 \<rparr>,
         \<lparr> pos_x = 0, pos_y = 150, pos_width = 1080, pos_height = 1350 \<rparr>)]
   \<and> scrim_rects (paints (drawStoryCanvas_lib True
       (Some (File (Some \<lparr> img_width = 1920, img_height = 1080 \<rparr>))) None None
       (Some \<lparr> pos_x = 0, pos_y = 150, pos_width = 1080, pos_height = 1350 \<rparr>)))
     \<noteq> [\<lparr> pos_x = 0, pos_y = 150, pos_width = 1080, pos_height = 1350 \<rparr>]"
  by (simp add: paints_def drawStoryCanvas_lib_def draw_background_lib_def draw_floor_plan_lib_def
      draw_card_def draw_bottom_lib_def draw_bank_logo_def backgroundRect_def scrim_def Let_def)

subsection \<open>Explicit placement rectangles\<close>

text \<open>
  What holds of the specification's statement: a given background rectangle is used as it is, and a given
  floor-plan rectangle is used as it is when none of its four fields is zero; without a
  rectangle the floor plan gets the default.
\<close>

lemma backgroundRect_explicit: "backgroundRect img (Some p) = p"
  by (simp add: backgroundRect_def)

lemma planRect_explicit:
  assumes "pos_x p \<noteq> 0" "pos_y p \<noteq> 0" "pos_width p \<noteq> 0" "pos_height p \<noteq> 0"
  shows "planRect (Some p) = p"
  using assms by (simp add: planRect_def or_default_def)

lemma planRect_default:
  "planRect None = \<lparr> pos_x = 1080 - 480 - 60, pos_y = 700, pos_width = 480, pos_height = 320 \<rparr>"
  by (simp add: planRect_def or_default_def)

text \<open>
  C5 at the failing input. A floor-plan rectangle with \<open>x = 0\<close> is not used as given: the
  \<^verbatim>\<open>||\<close> of the source takes the zero for a missing value, and the floor plan is placed at
  \<open>x = 1080 - width - 60\<close>; likewise \<open>y = 0\<close> becomes 700. The render draws the border and the
  image there. The rectangle with \<open>x = 0\<close> is what the controller holds after the floor plan
  has been dragged to the left edge of the canvas.
\<close>

theorem planRect_zero_coordinate:
  "planRect (Some \<lparr> pos_x = 0, pos_y = 700, pos_width = 480, pos_height = 320 \<rparr>)
     = \<lparr> pos_x = 540, pos_y = 700, pos_width = 480, pos_height = 320 \<rparr>
   \<and> planRect (Some \<lparr> pos_x = 300, pos_y = 0, pos_width = 480, pos_height = 320 \<rparr>)
     = \<lparr> pos_x = 300, pos_y = 700, pos_width = 480, pos_height = 320 \<rparr>
   \<and> StrokeRect 540 700 480 320 \<in> set (drawStoryCanvas True None (floorPlan both_images)
         (Some \<lparr> pos_x = 0, pos_y = 700, pos_width = 480, pos_height = 320 \<rparr>) None None True)
   \<and> StrokeRect 0 700 480 320 \<notin> set (drawStoryCanvas True None (floorPlan both_images)
         (Some \<lparr> pos_x = 0, pos_y = 700, pos_width = 480, pos_height = 320 \<rparr>) None None True)
   \<and> images (paints (drawStoryCanvas True None (floorPlan both_images)
         (Some \<lparr> pos_x = 0, pos_y = 700, pos_width = 480, pos_height = 320 \<rparr>) None None True))
     = [(\<lparr> img_width = 800, img_height = 600 \<rparr>,
         \<lparr> pos_x = 1708 / 3, pos_y = 702, pos_width = 1264 / 3, pos_height = 316 \<rparr>)]
   \<and> floorPlanPosition (snd (run (both_images, initialStoryCanvas None None)
         [MouseDown 500 700, MouseMove 0 700]))
     = \<lparr> pos_x = 0, pos_y = 650, pos_width = 600, pos_height = 400 \<rparr>
   \<and> planRect (Some \<lparr> pos_x = 0, pos_y = 650, pos_width = 600, pos_height = 400 \<rparr>)
     = \<lparr> pos_x = 420, pos_y = 650, pos_width = 600, pos_height = 400 \<rparr>"
proof -
  have rects: "planRect (Some \<lparr> pos_x = 0, pos_y = 700, pos_width = 480, pos_height = 320 \<rparr>)
     = \<lparr> pos_x = 540, pos_y = 700, pos_width = 480, pos_height = 320 \<rparr>"
    "planRect (Some \<lparr> pos_x = 300, pos_y = 0, pos_width = 480, pos_height = 320 \<rparr>)
     = \<lparr> pos_x = 300, pos_y = 700, pos_width = 480, pos_height = 320 \<rparr>"
    "planRect (Some \<lparr> pos_x = 0, pos_y = 650, pos_width = 600, pos_height = 400 \<rparr>)
     = \<lparr> pos_x = 420, pos_y = 650, pos_width = 600, pos_height = 400 \<rparr>"
    by (simp_all add: planRect_def or_default_def)
  have render: "drawStoryCanvas True None (floorPlan both_images)
         (Some \<lparr> pos_x = 0, pos_y = 700, pos_width = 480, pos_height = 320 \<rparr>) None None True
     = [SetCanvasSize 1080 1920] @ draw_fill None
       @ [SetShadowColor ''rgba(0, 0, 0, 0.8)'', SetShadowBlur 10,
          DrawImage \<lparr> img_width = 800, img_height = 600 \<rparr> (1708 / 3) 702 (1264 / 3) 316,
          SetShadowBlur 0,
          SetStrokeStyle ''rgba(255, 255, 255, 0.8)'', SetLineWidth 2,
          SetLineDash [5, 5], StrokeRect 540 700 480 320, SetLineDash [],
          SetFillStyle (Color ''rgba(255, 255, 255, 0.9)''),
          FillRect 1000 1000 20 20,
          SetStrokeStyle ''rgba(0, 0, 0, 0.5)'', SetLineWidth 1,
          StrokeRect 1000 1000 20 20,
          SetStrokeStyle ''rgba(0, 0, 0, 0.7)'', SetLineWidth 2]
       @ resize_icon 1000 1000 @ draw_card @ draw_bottom"
    by (simp add: drawStoryCanvas_def draw_background_def draw_floor_plan_def both_images_def
        rects calculateImageFit_def Let_def)
  have stroke: "StrokeRect 540 700 480 320 \<in> set (drawStoryCanvas True None (floorPlan both_images)
         (Some \<lparr> pos_x = 0, pos_y = 700, pos_width = 480, pos_height = 320 \<rparr>) None None True)"
    unfolding render by simp
  have no_stroke: "StrokeRect 0 700 480 320 \<notin> set (drawStoryCanvas True None (floorPlan both_images)
         (Some \<lparr> pos_x = 0, pos_y = 700, pos_width = 480, pos_height = 320 \<rparr>) None None True)"
    unfolding render
    by (simp add: draw_fill_def resize_icon_def draw_card_def draw_bottom_def draw_bank_logo_def Let_def)
  have image: "images (paints (drawStoryCanvas True None (floorPlan both_images)
         (Some \<lparr> pos_x = 0, pos_y = 700, pos_width = 480, pos_height = 320 \<rparr>) None None True))
     = [(\<lparr> img_width = 800, img_height = 600 \<rparr>,
         \<lparr> pos_x = 1708 / 3, pos_y = 702, pos_width = 1264 / 3, pos_height = 316 \<rparr>)]"
    unfolding render
    by (simp add: paints_def draw_fill_def resize_icon_def draw_card_def draw_bottom_def
        draw_bank_logo_def Let_def)
  have dragged: "floorPlanPosition (snd (run (both_images, initialStoryCanvas None None)
         [MouseDown 500 700, MouseMove 0 700]))
     = \<lparr> pos_x = 0, pos_y = 650, pos_width = 600, pos_height = 400 \<rparr>"
    by (simp add: run_def both_images_def initialStoryCanvas_def handleMouseDown_def
        handleMouseMove_def Let_def isInResizeHandle_def isInBackgroundResizeHandle_def
        isInFloorPlan_def)
  from rects stroke no_stroke image dragged show ?thesis
    by blast
qed

subsection \<open>Monthly payment\<close>

lemma balance_closed_form:
  "i * balance P i A k = i * P * (1 + i) ^ k - A * ((1 + i) ^ k - 1)"
proof (induction k)
  case 0
  show ?case by simp
next
  case (Suc k)
  have "i * balance P i A (Suc k) = (i * balance P i A k) * (1 + i) - i * A"
    by (simp add: algebra_simps)
  also have "\<dots> = (i * P * (1 + i) ^ k - A * ((1 + i) ^ k - 1)) * (1 + i) - i * A"
    by (simp only: Suc.IH)
  also have "\<dots> = i * P * (1 + i) ^ Suc k - A * ((1 + i) ^ Suc k - 1)"
    by (simp add: algebra_simps)
  finally show ?case .
qed

lemma annuity_fraction:
  fixes a g :: real
  assumes "1 < g"
  shows "a / (1 - 1 / g) = a * g / (g - 1)"
proof -
  from assms have "1 - 1 / g = (g - 1) / g"
    by (simp add: field_simps)
  then show ?thesis
    by simp
qed

lemma annuity_payment_nat:
  assumes "0 < i" "0 < n"
  shows "annuity_payment P i (real n) = P * i * (1 + i) ^ n / ((1 + i) ^ n - 1)"
proof -
  from assms have g: "1 < (1 + i) ^ n"
    by (simp add: one_less_power)
  from assms have "(1 + i) powr (- real n) = 1 / (1 + i) ^ n"
    by (simp add: powr_minus powr_realpow inverse_eq_divide)
  then show ?thesis
    unfolding annuity_payment_def using annuity_fraction [OF g, of "P * i"] by simp
qed

text \<open>The annuity payment repays the principal with interest in exactly \<open>n\<close> payments.\<close>

lemma annuity_payment_amortises:
  assumes "0 < i" "0 < n"
  shows "balance P i (annuity_payment P i (real n)) n = 0"
proof -
  let ?g = "(1 + i) ^ n"
  let ?A = "annuity_payment P i (real n)"
  from assms have g: "1 < ?g"
    by (simp add: one_less_power)
  have "?A * (?g - 1) = P * i * ?g"
    unfolding annuity_payment_nat [OF assms] using g by simp
  then have "i * balance P i ?A n = 0"
    unfolding balance_closed_form by (simp add: mult.commute mult.left_commute)
  with assms(1) show ?thesis
    by simp
qed




text \<open>
  With \<^verbatim>\<open>years = 0\<close> the code divides by zero: the result is \<^verbatim>\<open>Infinity\<close>, not a payment.
\<close>

lemma calculateMonthlyPayment_zero_years:
  assumes "0 < totalCost" "0 \<le> initialPayment" "0 < rate" "initialPayment < totalCost"
  shows "calculateMonthlyPayment totalCost initialPayment rate (Some 0) = Infinity"
  using assms by (simp add: calculateMonthlyPayment_def Let_def)



lemma calculateMonthlyPayment_one_month:
  "calculateMonthlyPayment 800000 0 12 (Some (1 / 12)) = Finite 808000"
  by (simp add: calculateMonthlyPayment_def Math_round_def Let_def)

subsection \<open>Debounce\<close>

lemma single_timer_cleanup:
  assumes "single_timer el"
  shows "timers (cleanup el) = []"
proof (cases "timers el")
  case Nil
  then show ?thesis
    by (simp add: cleanup_def clearTimeout_def split: option.splits)
next
  case (Cons t ts)
  with assms have "ts = []" and "timeoutId el = Some (timer_id t)"
    by (simp_all add: single_timer_def split: list.splits)
  with Cons show ?thesis
    by (simp add: cleanup_def clearTimeout_def)
qed

lemma cleanup_fields:
  "clock (cleanup el) = clock el" "notifications (cleanup el) = notifications el"
  by (simp_all add: cleanup_def clearTimeout_def split: option.splits)

lemma mutation_armed:
  assumes "single_timer el"
  shows "armed cb (clock el) layout (mutation cb layout el)"
    and "notifications (mutation cb layout el) = notifications el"
  using single_timer_cleanup [OF assms]
  by (simp_all add: mutation_def effect_def setTimeout_def armed_def cleanup_fields)

lemma armed_single_timer: "armed cb t layout el \<Longrightarrow> single_timer el"
  by (auto simp add: armed_def single_timer_def split: option.splits)

lemma advance_single_timer: "single_timer el \<Longrightarrow> single_timer (advance T el)"
  by (cases "timers el") (auto simp add: single_timer_def advance_def Let_def split: list.splits)

lemma advance_clock: "clock el \<le> T \<Longrightarrow> clock (advance T el) = T"
  by (simp add: advance_def Let_def)

lemma armed_advance_early:
  assumes "armed cb t0 layout el" "t0 \<le> t" "t < t0 + 100"
  shows "single_timer (advance t el)" "clock (advance t el) = t"
    "notifications (advance t el) = notifications el"
  using assms by (auto simp add: armed_def single_timer_def advance_def Let_def split: option.splits)

lemma armed_advance_late:
  assumes "armed cb t0 layout el" "t0 + 100 \<le> T"
  shows "timers (advance T el) = []"
    "notifications (advance T el) = notifications el @ (if cb then [layout] else [])"
  using assms by (auto simp add: armed_def advance_def Let_def split: option.splits)

lemma play_armed:
  assumes "armed cb t0 layout0 el" "closely_spaced t0 ms"
  shows "armed cb (fst (last ((t0, layout0) # ms))) (snd (last ((t0, layout0) # ms))) (play cb ms el)
       \<and> notifications (play cb ms el) = notifications el"
  using assms
proof (induction ms arbitrary: t0 layout0 el)
  case Nil
  then show ?case by simp
next
  case (Cons m ms)
  obtain t layout where m: "m = (t, layout)"
    by (cases m)
  from Cons.prems(2) m have t: "t0 \<le> t" "t < t0 + 100" and rest: "closely_spaced t ms"
    by simp_all
  let ?el = "mutation cb layout (advance t el)"
  from armed_advance_early [OF Cons.prems(1) t]
  have a: "single_timer (advance t el)" "clock (advance t el) = t"
    "notifications (advance t el) = notifications el" .
  from mutation_armed [OF a(1), of cb layout] a(2,3)
  have b: "armed cb t layout ?el" "notifications ?el = notifications el"
    by simp_all
  from Cons.IH [OF b(1) rest] b(2) m show ?case
    by simp
qed

lemma closely_spaced_take: "closely_spaced t0 ms \<Longrightarrow> closely_spaced t0 (take k ms)"
proof (induction ms arbitrary: t0 k)
  case Nil
  then show ?case by simp
next
  case (Cons m ms)
  then show ?case
    by (cases m; cases k) simp_all
qed

lemma play_burst:
  assumes "single_timer el" "clock el \<le> t1" "closely_spaced t1 ms"
  shows "armed cb (fst (last ((t1, layout1) # ms))) (snd (last ((t1, layout1) # ms)))
           (play cb ((t1, layout1) # ms) el)"
    and "notifications (play cb ((t1, layout1) # ms) el) = notifications (advance t1 el)"
proof -
  let ?el = "mutation cb layout1 (advance t1 el)"
  from mutation_armed [OF advance_single_timer [OF assms(1), of t1], where cb = cb and layout = layout1]
    advance_clock [OF assms(2)]
  have a: "armed cb t1 layout1 ?el" "notifications ?el = notifications (advance t1 el)"
    by simp_all
  from play_armed [OF a(1) assms(3)] a(2)
  show "armed cb (fst (last ((t1, layout1) # ms))) (snd (last ((t1, layout1) # ms)))
           (play cb ((t1, layout1) # ms) el)"
    and "notifications (play cb ((t1, layout1) # ms) el) = notifications (advance t1 el)"
    by simp_all
qed

text \<open>
  C8. A burst of rectangle mutations, the first at \<open>t1\<close> and each following the previous one by
  less than 100 ms, on a component whose listener is set: after every mutation of the burst exactly
  one timer is pending, due 100 ms after that mutation and carrying its rectangles (the timer
  of the mutation before is cleared); once 100 ms have passed after the last mutation, the
  burst has produced exactly one notification, carrying the rectangles of the last mutation,
  and no timer is left. What was notified before the burst is \<open>notifications (advance t1 el)\<close>.
\<close>

theorem debounce_single_notification:
  assumes "single_timer el" and "clock el \<le> t1" and "closely_spaced t1 ms"
    and "fst (last ((t1, layout1) # ms)) + 100 \<le> T"
  shows "notifications (advance T (play True ((t1, layout1) # ms) el))
           = notifications (advance t1 el) @ [snd (last ((t1, layout1) # ms))]
       \<and> timers (advance T (play True ((t1, layout1) # ms) el)) = []
       \<and> (\<forall>k < length ((t1, layout1) # ms).
            armed True (fst (((t1, layout1) # ms) ! k)) (snd (((t1, layout1) # ms) ! k))
              (play True (take (Suc k) ((t1, layout1) # ms)) el)
            \<and> notifications (play True (take (Suc k) ((t1, layout1) # ms)) el)
                = notifications (advance t1 el))"
proof -
  let ?burst = "(t1, layout1) # ms"
  note after = play_burst [OF assms(1-3), where cb = True and ?layout1.0 = layout1]
  from armed_advance_late [OF after(1) assms(4)] after(2)
  have one: "notifications (advance T (play True ?burst el))
           = notifications (advance t1 el) @ [snd (last ?burst)]"
    and none: "timers (advance T (play True ?burst el)) = []"
    by simp_all
  have each: "armed True (fst (?burst ! k)) (snd (?burst ! k)) (play True (take (Suc k) ?burst) el)
            \<and> notifications (play True (take (Suc k) ?burst) el) = notifications (advance t1 el)"
    if "k < length ?burst" for k
  proof -
    have prefix: "take (Suc k) ?burst = (t1, layout1) # take k ms"
      by simp
    from that have "last ((t1, layout1) # take k ms) = ?burst ! k"
      by (metis prefix last_snoc take_Suc_conv_app_nth)
    with play_burst [OF assms(1,2) closely_spaced_take [OF assms(3)],
        where k1 = k and cb = True and ?layout1.0 = layout1] prefix
    show ?thesis
      by simp
  qed
  from one none each show ?thesis
    by blast
qed

theorem debounce_single_notification_witness:
  "single_timer mounted \<and> clock mounted \<le> 10 \<and> closely_spaced 10 (tl burst5)
   \<and> fst (last burst5) + 100 \<le> 190
   \<and> length burst5 = 5
   \<and> notifications (advance 10 mounted) = []
   \<and> notifications (advance 190 (play True burst5 mounted))
       = [(\<lparr> pos_x = 440, pos_y = 650, pos_width = 600, pos_height = 400 \<rparr>,
           \<lparr> pos_x = 50, pos_y = 150, pos_width = 1080, pos_height = 1350 \<rparr>)]
   \<and> timers (advance 190 (play True burst5 mounted)) = []
   \<and> armed True 50 (snd (burst5 ! 2)) (play True (take 3 burst5) mounted)"
proof -
  have b: "burst5 = (10, (floorPlanPosition (initialStoryCanvas None None),
                (backgroundPosition (initialStoryCanvas None None))\<lparr> pos_x := 10 \<rparr>)) # tl burst5"
    by (simp add: burst5_def)
  have h: "single_timer mounted" "clock mounted \<le> 10" "closely_spaced 10 (tl burst5)"
    "fst (last burst5) + 100 \<le> 190"
    by (simp_all add: mounted_def effect_def setTimeout_def single_timer_def burst5_def)
  have n: "notifications (advance 10 mounted) = []"
    by (simp add: mounted_def effect_def setTimeout_def advance_def)
  have l: "snd (last burst5) = (\<lparr> pos_x = 440, pos_y = 650, pos_width = 600, pos_height = 400 \<rparr>,
           \<lparr> pos_x = 50, pos_y = 150, pos_width = 1080, pos_height = 1350 \<rparr>)"
    "length burst5 = 5"
    by (simp_all add: burst5_def initialStoryCanvas_def)
  have h4: "fst (last ((10, (floorPlanPosition (initialStoryCanvas None None),
                (backgroundPosition (initialStoryCanvas None None))\<lparr> pos_x := 10 \<rparr>)) # tl burst5))
              + 100 \<le> 190"
    using h(4) b by simp
  have k: "(2 :: nat) < length burst5" "fst (burst5 ! 2) = 50" "take (Suc 2) burst5 = take 3 burst5"
    by (simp_all add: burst5_def)
  note inst = debounce_single_notification [OF h(1,2,3) h4, unfolded b [symmetric]]
  from inst have c1: "notifications (advance 190 (play True burst5 mounted))
      = notifications (advance 10 mounted) @ [snd (last burst5)]"
    by (rule conjunct1)
  from inst have c2: "timers (advance 190 (play True burst5 mounted)) = []"
    by (rule conjunct2 [THEN conjunct1])
  from inst have c3: "\<forall>k < length burst5.
      armed True (fst (burst5 ! k)) (snd (burst5 ! k)) (play True (take (Suc k) burst5) mounted)
      \<and> notifications (play True (take (Suc k) burst5) mounted) = notifications (advance 10 mounted)"
    by (rule conjunct2 [THEN conjunct2])
  from c3 k(1) have "armed True (fst (burst5 ! 2)) (snd (burst5 ! 2)) (play True (take (Suc 2) burst5) mounted)"
    by blast
  then have c4: "armed True 50 (snd (burst5 ! 2)) (play True (take 3 burst5) mounted)"
    by (simp only: k(2,3))
  from h n l c1 c2 c4 show ?thesis
    by simp
qed

end
